theory Spec2Isabelle
  imports Complex_Main
begin

section \<open>Data model of \<open>packages/simple-xcm/simplexcm.ts\<close>\<close>

text \<open>
  Every \<open>throw\<close> of the source is a constructor of \<open>error\<close>. Failures raised by
  collaborators whose code is outside the file (sanitizers, version converters, the
  estimator) are carried by \<open>CollaboratorError\<close>.
\<close>

datatype HopError = TooExpensiveFeeError (missingAmount: int) | OtherHopError string

datatype error =
    XcmVersionTooHigh nat nat
  | UnknownNamedLocation string
  | InvalidAmountFormat
  | IncorrectDecimals
  | DecimalPartTooLong nat int
  | BigIntSyntaxError string
  | NoKnownBackend string
  | NoLocationToAccountApi string
  | CantConvertLocation string string
  | FeeAssetNotInTransfer string
  | BeneficiaryNotInterior nat
  | AscendsAboveRoot
  | JsTypeError
  | FeeEstimationErrors "HopError list"
  | CollaboratorError string

subsection \<open>Locations, assets, lookups\<close>

text \<open>
  The types of \<open>@open-xcm-tools/xcm-types\<close> are not part of the sources at hand; they
  are modelled from the specification's data model. A junction is one step of an
  interior path, an interior location a sequence of junctions, a location a number of
  parents and an interior location. The amount of a fungible asset is a \<open>bigint\<close>.
\<close>

datatype Junction =
    Parachain nat
  | PalletInstance nat
  | GeneralIndex nat
  | GeneralKey string
  | AccountId32 string
  | GlobalConsensus string

type_synonym InteriorLocation = "Junction list"

record Location =
  parents :: nat
  interior :: InteriorLocation

datatype Fungibility = Fungible (fungible: int) | NonFungible string

record Asset =
  asset_id :: Location
  asset_fun :: Fungibility

text \<open>\<open>LocationLookup\<close>: a registry name (a string) or a location with \<open>parents\<close>.\<close>

datatype LocationLookup = Named string | Loc Location

text \<open>\<open>InteriorLocationLookup\<close>: a registry name or an interior location.\<close>

datatype InteriorLocationLookup = INamed string | IInterior InteriorLocation

record AssetLookup =
  lookup_id :: LocationLookup
  lookup_fun :: Fungibility

datatype Origin = SystemSigned string | OtherOrigin string

text \<open>\<open>Origin | RegistryLookup\<close>, told apart by \<open>typeof origin === 'string'\<close>.\<close>

datatype OriginLookup = OriginName string | OriginValue Origin

record TransferParams =
  tp_origin :: OriginLookup
  tp_assets :: "AssetLookup list"
  tp_feeAssetId :: LocationLookup
  tp_destination :: LocationLookup
  tp_beneficiary :: LocationLookup

text \<open>Version-tagged values: the tag and the payload at that version.\<close>

datatype VersionedLocation = VersionedLocation nat Location

datatype VersionedAssetId = VersionedAssetId nat Location

text \<open>
  The asset objects of the encoded vector live in a store, since
  \<open>feeAnyAssetRef\<close> is a second reference to one of them and the convergence loop
  writes through it. \<open>assets\<close> is the version tag and the vector of references.
  A reference of the JavaScript program always leads to an object, so \<open>None\<close> stands
  for an address that no reference of a well-formed state holds.
\<close>

type_synonym addr = nat

type_synonym store = "addr \<Rightarrow> Asset option"

record PreparedTransferParams =
  origin :: Origin
  assets :: "nat \<times> addr list"
  feeAssetId :: Location
  feeAssetIndex :: nat
  feeAnyAssetRef :: addr
  destination :: Location
  beneficiary :: Location

text \<open>
  A submittable extrinsic holds the encoded arguments it was built from, so it records
  the assets' values at the time of the call.
\<close>

datatype Extrinsic =
    TransferAssets VersionedLocation VersionedLocation "nat \<times> Asset option list" nat string
  | TransferMultiassets "nat \<times> Asset option list" nat VersionedLocation string

subsection \<open>The instance and its collaborators\<close>

text \<open>
  What the methods read of a \<open>SimpleXcm\<close> instance: the chain's identity
  (\<open>chainInfo.identity\<close>), the two name tables of the registry, the capabilities of
  the connected node (\<open>'transferAssets' in api.tx[palletXcm]\<close>, the declared pallets,
  the presence of \<open>locationToAccountApi\<close> and the answer of its \<open>convertLocation\<close>
  runtime call: \<open>Inl\<close> the error text, \<open>Inr\<close> the account in hex), the estimator's
  maximum XCM version and the active XCM version.
\<close>

record SimpleXcm =
  chainName :: string
  universalLocation :: InteriorLocation
  registryUniversalLocation :: "string \<Rightarrow> InteriorLocation option"
  registryRelativeLocation :: "string \<Rightarrow> Location option"
  palletXcmHasTransferAssets :: bool
  metadataPallets :: "string list"
  hasLocationToAccountApi :: bool
  convertLocation :: "VersionedLocation \<Rightarrow> string + string"
  estimatorXcmVersion :: nat
  xcmVersion :: nat

text \<open>
  Functions imported from \<open>@open-xcm-tools/xcm-util\<close> and \<open>./main-utils\<close> whose code is
  not part of the sources at hand. They are parameters of the model: a sanitizer
  either throws (\<open>Some\<close> the error) or returns, a converter returns \<open>Inl\<close> the error it
  throws or \<open>Inr\<close> its result.
\<close>

record Util =
  sanitizeLookup :: "Location \<Rightarrow> error option"
  sanitizeInterior :: "InteriorLocation \<Rightarrow> error option"
  sanitizeTransferParams :: "TransferParams \<Rightarrow> error option"
  convertLocationVersion :: "nat \<Rightarrow> Location \<Rightarrow> error + VersionedLocation"
  convertAssetIdVersion :: "nat \<Rightarrow> Location \<Rightarrow> error + VersionedAssetId"
  prepareAssetsForEncoding :: "nat \<Rightarrow> Asset list \<Rightarrow> error + nat \<times> Asset list"
  palletApiTxName :: "string \<Rightarrow> string"

text \<open>
  The interactions with the node: the \<open>convertLocation\<close> runtime call of
  \<open>locationToAccountApi\<close> and the estimator's dry-run of a candidate extrinsic.
\<close>

datatype NetEvent =
    ConvertLocationCall VersionedLocation
  | EstimateFeesCall Origin Extrinsic Location

subsection \<open>\<open>enforceXcmVersion\<close>\<close>

text \<open>
  A throw leaves the instance as it was, so the function returns the raised error (if
  any) together with the instance after the call.
\<close>

definition enforceXcmVersion :: "nat \<Rightarrow> SimpleXcm \<Rightarrow> error option \<times> SimpleXcm" where
  "enforceXcmVersion version this =
     (if version > estimatorXcmVersion this
      then (Some (XcmVersionTooHigh version (estimatorXcmVersion this)), this)
      else (None, this\<lparr>xcmVersion := version\<rparr>))"

subsection \<open>Resolving locations\<close>

fun commonPrefixLength :: "'a list \<Rightarrow> 'a list \<Rightarrow> nat" where
  "commonPrefixLength (x # xs) (y # ys) = (if x = y then Suc (commonPrefixLength xs ys) else 0)"
| "commonPrefixLength _ _ = 0"

text \<open>
  Modelled from the spec: \<open>locationRelativeToPrefix\<close> of \<open>@open-xcm-tools/xcm-util\<close> is
  missing from the sources. "Compute the longest common leading subsequence of junctions
  between the two; the result's parents equals (prefix length - common length), and its
  interior equals the absolute location's junctions after the common length."
\<close>

definition locationRelativeToPrefix :: "InteriorLocation \<Rightarrow> InteriorLocation \<Rightarrow> Location" where
  "locationRelativeToPrefix location prefix =
     (let common = commonPrefixLength location prefix
      in \<lparr>parents = length prefix - common, interior = drop common location\<rparr>)"

text \<open>
  Modelled from the spec: \<open>relativeLocationToUniversal\<close> of \<open>@open-xcm-tools/xcm-util\<close>
  is missing from the sources. "Drop the last parents junctions from the context and
  append the relative interior; fails if parents exceeds the context's length."
\<close>

definition relativeLocationToUniversal :: "Location \<Rightarrow> InteriorLocation \<Rightarrow> error + InteriorLocation" where
  "relativeLocationToUniversal relativeLocation context =
     (if parents relativeLocation > length context then Inl AscendsAboveRoot
      else Inr (take (length context - parents relativeLocation) context
                @ interior relativeLocation))"

text \<open>
  The argument is \<open>InteriorLocation | LocationLookup\<close>: \<open>Inr (Named s)\<close> when
  \<open>typeof lookup === 'string'\<close>, \<open>Inr (Loc l)\<close> when \<open>'parents' in lookup\<close>, and
  \<open>Inl\<close> a bare interior location otherwise.
\<close>

definition resolveRelativeLocation ::
  "Util \<Rightarrow> SimpleXcm \<Rightarrow> InteriorLocation + LocationLookup \<Rightarrow> error + Location" where
  "resolveRelativeLocation u this lookup =
     (case lookup of
        Inr (Named name) \<Rightarrow>
          (case registryUniversalLocation this name of
             Some universalLoc \<Rightarrow>
               Inr (locationRelativeToPrefix universalLoc (universalLocation this))
           | None \<Rightarrow>
               (case registryRelativeLocation this name of
                  Some relativeLoc \<Rightarrow> Inr relativeLoc
                | None \<Rightarrow> Inl (UnknownNamedLocation name)))
      | Inr (Loc l) \<Rightarrow>
          (case sanitizeLookup u l of Some e \<Rightarrow> Inl e | None \<Rightarrow> Inr l)
      | Inl i \<Rightarrow>
          (case sanitizeInterior u i of
             Some e \<Rightarrow> Inl e
           | None \<Rightarrow> Inr (locationRelativeToPrefix i (universalLocation this))))"

definition resolveUniversalLocation ::
  "Util \<Rightarrow> SimpleXcm \<Rightarrow> InteriorLocationLookup \<Rightarrow> error + InteriorLocation" where
  "resolveUniversalLocation u this lookup =
     (case lookup of
        INamed name \<Rightarrow>
          (case registryUniversalLocation this name of
             Some universalLoc \<Rightarrow> Inr universalLoc
           | None \<Rightarrow>
               (case registryRelativeLocation this name of
                  Some relativeLoc \<Rightarrow>
                    relativeLocationToUniversal relativeLoc (universalLocation this)
                | None \<Rightarrow> Inl (UnknownNamedLocation name)))
      | IInterior i \<Rightarrow>
          (case sanitizeInterior u i of Some e \<Rightarrow> Inl e | None \<Rightarrow> Inr i))"

definition resolveRelativeAsset :: "Util \<Rightarrow> SimpleXcm \<Rightarrow> AssetLookup \<Rightarrow> error + Asset" where
  "resolveRelativeAsset u this lookup =
     (case resolveRelativeLocation u this (Inr (lookup_id lookup)) of
        Inl e \<Rightarrow> Inl e
      | Inr l \<Rightarrow> Inr \<lparr>asset_id = l, asset_fun = lookup_fun lookup\<rparr>)"

text \<open>\<open>assets.map(asset => resolveRelativeAsset(asset))\<close>: the first throw ends the map.\<close>

fun resolveAssets :: "Util \<Rightarrow> SimpleXcm \<Rightarrow> AssetLookup list \<Rightarrow> error + Asset list" where
  "resolveAssets u this [] = Inr []"
| "resolveAssets u this (a # as) =
     (case resolveRelativeAsset u this a of
        Inl e \<Rightarrow> Inl e
      | Inr x \<Rightarrow> (case resolveAssets u this as of Inl e \<Rightarrow> Inl e | Inr xs \<Rightarrow> Inr (x # xs)))"

subsection \<open>\<open>locationToAccountId\<close>\<close>

text \<open>
  The result comes with the list of the interactions with the node that the call made,
  in order. The check for \<open>locationToAccountApi\<close> reads the metadata already held by
  the client; the runtime call \<open>convertLocation\<close> is the interaction.
\<close>

function locationToAccountId ::
  "Util \<Rightarrow> SimpleXcm \<Rightarrow> LocationLookup \<Rightarrow> (error + string) \<times> NetEvent list" where
  "locationToAccountId u this lookup =
     (if \<not> hasLocationToAccountApi this
      then (Inl (NoLocationToAccountApi (chainName this)), [])
      else
        (case lookup of
           Named name \<Rightarrow>
             (case resolveRelativeLocation u this (Inr (Named name)) of
                Inl e \<Rightarrow> (Inl e, [])
              | Inr accountLocation \<Rightarrow> locationToAccountId u this (Loc accountLocation))
         | Loc l \<Rightarrow>
             (case sanitizeLookup u l of
                Some e \<Rightarrow> (Inl e, [])
              | None \<Rightarrow>
                  (let versionedLocation = VersionedLocation 4 l
                   in case convertLocation this versionedLocation of
                        Inl err \<Rightarrow>
                          (Inl (CantConvertLocation (chainName this) err),
                           [ConvertLocationCall versionedLocation])
                      | Inr hex \<Rightarrow> (Inr hex, [ConvertLocationCall versionedLocation])))))"
  by pat_completeness auto
termination
  by (relation "measure (\<lambda>(u, this, lookup). case lookup of Named _ \<Rightarrow> 1 | Loc _ \<Rightarrow> 0)") auto

subsection \<open>\<open>tryEstimateExtrinsicXcmFees\<close>\<close>

text \<open>
  The estimator (\<open>@open-xcm-tools/xcm-estimate\<close>) is a collaborator: its answer to a
  call is \<open>Inr\<close> the estimated fees or \<open>Inl\<close> what it throws, which is a
  \<open>FeeEstimationErrors\<close> aggregate of per-hop errors or anything else.
  The result of \<open>tryEstimateExtrinsicXcmFees\<close> is \<open>{value: bigint}\<close> or
  \<open>{error: TooExpensiveFeeError}\<close>, the latter given by its \<open>missingAmount\<close>.
\<close>

datatype EstimatedFees = Value int | Error int

definition isTooExpensiveFeeError :: "HopError \<Rightarrow> bool" where
  "isTooExpensiveFeeError e = (case e of TooExpensiveFeeError _ \<Rightarrow> True | OtherHopError _ \<Rightarrow> False)"

definition tryEstimateExtrinsicXcmFees ::
  "(Origin \<Rightarrow> Extrinsic \<Rightarrow> Location \<Rightarrow> error + int) \<Rightarrow> Origin \<Rightarrow> Extrinsic \<Rightarrow> Location
     \<Rightarrow> error + EstimatedFees" where
  "tryEstimateExtrinsicXcmFees estimateExtrinsicFees og xt feeId =
     (case estimateExtrinsicFees og xt feeId of
        Inr estimatedFees \<Rightarrow> Inr (Value estimatedFees)
      | Inl errors \<Rightarrow>
          (case errors of
             FeeEstimationErrors errs \<Rightarrow>
               (let tooExpensiveErrors = filter isTooExpensiveFeeError errs
                in if length tooExpensiveErrors > 0
                   then Inr (Error (foldl (\<lambda>sum e. sum + missingAmount e) 0 tooExpensiveErrors))
                   else Inl errors)
           | _ \<Rightarrow> Inl errors))"

subsection \<open>\<open>#transferBackend\<close>\<close>

datatype TransferBackend = PalletXcmBackend | XTokensBackend

text \<open>
  One turn of \<open>for (const pallet of pallets)\<close> on the loop's variables
  \<open>(palletName, backend)\<close>: the \<open>switch\<close> has the \<open>default\<close> case only (the
  \<open>'xTokens'\<close> case is commented out), so \<open>backend\<close> stays as it is.
\<close>

definition scanPallet ::
  "Util \<Rightarrow> string \<Rightarrow> string option \<times> TransferBackend option
     \<Rightarrow> string option \<times> TransferBackend option" where
  "scanPallet u palletRuntimeName st =
     (case st of (palletName, backend) \<Rightarrow> (Some (palletApiTxName u palletRuntimeName), backend))"

definition transferBackend :: "Util \<Rightarrow> SimpleXcm \<Rightarrow> error + TransferBackend" where
  "transferBackend u this =
     (if palletXcmHasTransferAssets this then Inr PalletXcmBackend
      else
        (case fold (scanPallet u) (metadataPallets this) (None, None) of
           (palletName, Some backend) \<Rightarrow> Inr backend
         | (palletName, None) \<Rightarrow> Inl (NoKnownBackend (chainName this))))"

subsection \<open>\<open>prepareTransferParams\<close>\<close>

text \<open>
  The array that \<open>prepareAssetsForEncoding\<close> returns holds one object for each entry:
  the entry at position \<open>i\<close> is the object at address \<open>i\<close> of the store.
\<close>

definition allocate :: "Asset list \<Rightarrow> store \<times> addr list" where
  "allocate xs = ((\<lambda>a. if a < length xs then Some (xs ! a) else None), [0..<length xs])"

fun findFeeAssetFrom :: "store \<Rightarrow> Location \<Rightarrow> addr list \<Rightarrow> nat \<Rightarrow> (addr \<times> nat) option" where
  "findFeeAssetFrom h i [] k = None"
| "findFeeAssetFrom h i (a # as) k =
     (if map_option asset_id (h a) = Some i then Some (a, k)
      else findFeeAssetFrom h i as (Suc k))"

text \<open>
  Modelled from the spec: \<open>findFeeAssetById\<close> of \<open>@open-xcm-tools/xcm-estimate\<close> is
  missing from the sources. "Locate the fee asset's position in the canonical vector by
  id-equality"; the result is the entry itself (the reference) and its index, or
  nothing (\<open>undefined\<close>) when no entry has that id.
\<close>

definition findFeeAssetById ::
  "VersionedAssetId \<Rightarrow> store \<Rightarrow> nat \<times> addr list \<Rightarrow> (addr \<times> nat) option" where
  "findFeeAssetById feeId h vassets =
     (case feeId of VersionedAssetId v i \<Rightarrow> findFeeAssetFrom h i (snd vassets) 0)"

definition prepareTransferParams ::
  "Util \<Rightarrow> SimpleXcm \<Rightarrow> TransferParams
     \<Rightarrow> (error + PreparedTransferParams \<times> store) \<times> NetEvent list" where
  "prepareTransferParams u simpleXcm transferParams =
     (case (case tp_origin transferParams of
              OriginName name \<Rightarrow>
                (case locationToAccountId u simpleXcm (Named name) of
                   (Inl e, trace) \<Rightarrow> (Inl e, trace)
                 | (Inr account, trace) \<Rightarrow> (Inr (SystemSigned account), trace))
            | OriginValue og \<Rightarrow> (Inr og, [])) of
        (Inl e, trace) \<Rightarrow> (Inl e, trace)
      | (Inr og, trace) \<Rightarrow>
         ((case sanitizeTransferParams u transferParams of
             Some e \<Rightarrow> Inl e
           | None \<Rightarrow>
          (case resolveRelativeLocation u simpleXcm (Inr (tp_destination transferParams)) of
             Inl e \<Rightarrow> Inl e
           | Inr dest \<Rightarrow>
          (case resolveRelativeLocation u simpleXcm (Inr (tp_beneficiary transferParams)) of
             Inl e \<Rightarrow> Inl e
           | Inr benef \<Rightarrow>
          (case resolveRelativeLocation u simpleXcm (Inr (tp_feeAssetId transferParams)) of
             Inl e \<Rightarrow> Inl e
           | Inr feeId \<Rightarrow>
          (case resolveAssets u simpleXcm (tp_assets transferParams) of
             Inl e \<Rightarrow> Inl e
           | Inr resolvedAssets \<Rightarrow>
          (case prepareAssetsForEncoding u (xcmVersion simpleXcm) resolvedAssets of
             Inl e \<Rightarrow> Inl e
           | Inr (version, encoded) \<Rightarrow>
          (case convertAssetIdVersion u (xcmVersion simpleXcm) feeId of
             Inl e \<Rightarrow> Inl e
           | Inr convertedFeeAssetId \<Rightarrow>
          (case allocate encoded of (h, refs) \<Rightarrow>
          (case findFeeAssetById convertedFeeAssetId h (version, refs) of
             None \<Rightarrow> Inl (FeeAssetNotInTransfer (chainName simpleXcm))
           | Some (feeAnyAsset, index) \<Rightarrow>
               Inr (\<lparr>origin = og, assets = (version, refs), feeAssetId = feeId,
                     feeAssetIndex = index, feeAnyAssetRef = feeAnyAsset,
                     destination = dest, beneficiary = benef\<rparr>, h)))))))))),
          trace))"

subsection \<open>The primary backend: \<open>PalletXcmBackend.composeTransfer\<close>\<close>

text \<open>The encoded value of the asset vector at the time an extrinsic is built.\<close>

definition encodedAssets :: "PreparedTransferParams \<Rightarrow> store \<Rightarrow> nat \<times> Asset option list" where
  "encodedAssets p h = (fst (assets p), map h (snd (assets p)))"

text \<open>
  \<open>ref.fun.fungible += x\<close>. When \<open>ref.fun\<close> has no \<open>fungible\<close> property the sum is
  \<open>undefined + x\<close> with \<open>x\<close> a \<open>bigint\<close>, a TypeError.
\<close>

definition addToFungible :: "addr \<Rightarrow> int \<Rightarrow> store \<Rightarrow> error + store" where
  "addToFungible ref x h =
     (case h ref of
        None \<Rightarrow> Inl JsTypeError
      | Some a \<Rightarrow>
          (case asset_fun a of
             Fungible amount \<Rightarrow> Inr (h(ref \<mapsto> a\<lparr>asset_fun := Fungible (amount + x)\<rparr>))
           | NonFungible _ \<Rightarrow> Inl JsTypeError))"

text \<open>\<open>if ('fungible' in ref.fun) ref.fun.fungible += x\<close>.\<close>

definition addToFungibleIfPresent :: "addr \<Rightarrow> int \<Rightarrow> store \<Rightarrow> error + store" where
  "addToFungibleIfPresent ref x h =
     (case h ref of
        None \<Rightarrow> Inl JsTypeError
      | Some a \<Rightarrow>
          (case asset_fun a of
             Fungible amount \<Rightarrow> Inr (h(ref \<mapsto> a\<lparr>asset_fun := Fungible (amount + x)\<rparr>))
           | NonFungible _ \<Rightarrow> Inr h))"

text \<open>
  The \<open>do ... while ('error' in estimatedFees)\<close> loop. Its state is the list of the
  estimator calls made so far, the prepared parameters and the store. The estimator is
  external, so its answer may change from one call to the next: \<open>est k\<close> is its answer
  to the call made after \<open>k\<close> earlier ones. The loop has no bound on its iterations;
  \<open>None\<close> is a run that never ends.
\<close>

partial_function (option) feeLoop ::
  "(nat \<Rightarrow> Origin \<Rightarrow> Extrinsic \<Rightarrow> Location \<Rightarrow> error + int)
     \<Rightarrow> VersionedLocation \<Rightarrow> VersionedLocation
     \<Rightarrow> NetEvent list \<Rightarrow> PreparedTransferParams \<Rightarrow> store
     \<Rightarrow> (error + NetEvent list \<times> PreparedTransferParams \<times> store) option" where
  "feeLoop est dest benef calls preparedParams h =
     (let txToDryRun = TransferAssets dest benef (encodedAssets preparedParams h)
                         (feeAssetIndex preparedParams) ''Unlimited'';
          calls' = calls @ [EstimateFeesCall (origin preparedParams) txToDryRun
                              (feeAssetId preparedParams)]
      in case tryEstimateExtrinsicXcmFees (est (length calls)) (origin preparedParams)
                txToDryRun (feeAssetId preparedParams) of
           Inl e \<Rightarrow> Some (Inl e)
         | Inr (Error missing) \<Rightarrow>
             (case addToFungibleIfPresent (feeAnyAssetRef preparedParams) missing h of
                Inl e \<Rightarrow> Some (Inl e)
              | Inr h' \<Rightarrow> feeLoop est dest benef calls' preparedParams h')
         | Inr (Value v) \<Rightarrow>
             (case addToFungible (feeAnyAssetRef preparedParams) v h of
                Inl e \<Rightarrow> Some (Inl e)
              | Inr h' \<Rightarrow> Some (Inr (calls', preparedParams, h'))))"

text \<open>
  \<open>dryRun\<close> is \<open>Estimator.dryRunExtrinsic\<close>, the final check of the assembled
  transaction: \<open>Some\<close> the error it throws, or \<open>None\<close>.
\<close>

definition PalletXcmBackend_composeTransfer ::
  "Util \<Rightarrow> SimpleXcm \<Rightarrow> (nat \<Rightarrow> Origin \<Rightarrow> Extrinsic \<Rightarrow> Location \<Rightarrow> error + int)
     \<Rightarrow> (Origin \<Rightarrow> Extrinsic \<Rightarrow> error option) \<Rightarrow> TransferParams
     \<Rightarrow> (error + Extrinsic) option" where
  "PalletXcmBackend_composeTransfer u simpleXcm est dryRun transferParams =
     (case fst (prepareTransferParams u simpleXcm transferParams) of
        Inl e \<Rightarrow> Some (Inl e)
      | Inr (preparedParams, h) \<Rightarrow>
     (case convertLocationVersion u (xcmVersion simpleXcm) (destination preparedParams) of
        Inl e \<Rightarrow> Some (Inl e)
      | Inr dest \<Rightarrow>
     (case convertLocationVersion u (xcmVersion simpleXcm) (beneficiary preparedParams) of
        Inl e \<Rightarrow> Some (Inl e)
      | Inr benef \<Rightarrow>
     (case feeLoop est dest benef [] preparedParams h of
        None \<Rightarrow> None
      | Some (Inl e) \<Rightarrow> Some (Inl e)
      | Some (Inr (calls, preparedParams', h')) \<Rightarrow>
          (let tx = TransferAssets dest benef (encodedAssets preparedParams' h')
                      (feeAssetIndex preparedParams') ''Unlimited''
           in case dryRun (origin preparedParams') tx of
                Some e \<Rightarrow> Some (Inl e)
              | None \<Rightarrow> Some (Inr tx))))))"

subsection \<open>The alternate backend: \<open>XTokensBackend.composeTransfer\<close>\<close>

text \<open>
  Modelled from the spec: \<open>toJunctions\<close> and \<open>location\<close> of
  \<open>@open-xcm-tools/xcm-util\<close> are missing from the sources. An interior location is its
  sequence of junctions, and a location is \<open>{parents, interior}\<close>.
\<close>

definition toJunctions :: "InteriorLocation \<Rightarrow> Junction list" where
  "toJunctions i = i"

definition location :: "nat \<Rightarrow> Junction list \<Rightarrow> Location" where
  "location p js = \<lparr>parents = p, interior = js\<rparr>"

text \<open>
  The result is the final transaction and the store, with the estimator calls made:
  the call's second component is the candidate transaction \<open>txToDryRun\<close>.
\<close>

definition XTokensBackend_composeTransfer ::
  "Util \<Rightarrow> SimpleXcm \<Rightarrow> (nat \<Rightarrow> Origin \<Rightarrow> Extrinsic \<Rightarrow> Location \<Rightarrow> error + int)
     \<Rightarrow> TransferParams \<Rightarrow> (error + Extrinsic \<times> store) \<times> NetEvent list" where
  "XTokensBackend_composeTransfer u simpleXcm est transferParams =
     (case fst (prepareTransferParams u simpleXcm transferParams) of
        Inl e \<Rightarrow> (Inl e, [])
      | Inr (preparedParams, h) \<Rightarrow>
          (if parents (beneficiary preparedParams) \<noteq> 0
           then (Inl (BeneficiaryNotInterior (parents (beneficiary preparedParams))), [])
           else
             (let beneficiaryJunctions = toJunctions (interior (beneficiary preparedParams));
                  destinationJunctions = toJunctions (interior (destination preparedParams));
                  destinationBeneficiary =
                    location (parents (destination preparedParams))
                      (destinationJunctions @ beneficiaryJunctions)
              in case convertLocationVersion u (xcmVersion simpleXcm) destinationBeneficiary of
                   Inl e \<Rightarrow> (Inl e, [])
                 | Inr dest \<Rightarrow>
                     (let txToDryRun = TransferMultiassets (encodedAssets preparedParams h)
                                         (feeAssetIndex preparedParams) dest ''Unlimited'';
                          calls = [EstimateFeesCall (origin preparedParams) txToDryRun
                                     (feeAssetId preparedParams)]
                      in case tryEstimateExtrinsicXcmFees (est 0) (origin preparedParams)
                                txToDryRun (feeAssetId preparedParams) of
                           Inl e \<Rightarrow> (Inl e, calls)
                         | Inr estimatedFees \<Rightarrow>
                             (case (case estimatedFees of
                                      Value v \<Rightarrow>
                                        addToFungible (feeAnyAssetRef preparedParams) v h
                                    | Error _ \<Rightarrow> Inr h) of
                                Inl e \<Rightarrow> (Inl e, calls)
                              | Inr h' \<Rightarrow>
                                  (Inr (TransferMultiassets (encodedAssets preparedParams h')
                                          (feeAssetIndex preparedParams) dest ''Unlimited'', h'),
                                   calls))))))"

subsection \<open>\<open>#convertFungibleAmount\<close>\<close>

text \<open>\<open>\d\<close> of a JavaScript regular expression without the unicode flag: an ASCII digit.\<close>

definition isDigit :: "char \<Rightarrow> bool" where
  "isDigit c = (c \<in> set ''0123456789'')"

text \<open>\<open>\d+\<close> anchored at both ends.\<close>

definition digits1 :: "string \<Rightarrow> bool" where
  "digits1 s = (s \<noteq> [] \<and> list_all isDigit s)"

text \<open>\<open>(\.\d+)?$\<close>: nothing, or a dot followed by one or more digits, up to the end.\<close>

definition optFraction :: "string \<Rightarrow> bool" where
  "optFraction s = (case s of [] \<Rightarrow> True | c # r \<Rightarrow> c = CHR ''.'' \<and> digits1 r)"

text \<open>
  \<open>/^(0(\.\d+)?|[1-9]\d*(\.\d+)?)$/.test(amount)\<close>. In the second alternative
  \<open>\d*\<close> is followed by a dot or the end of the input, neither of which is a digit, so
  the only split that can match is the longest run of digits (\<open>dropWhile\<close>).
\<close>

definition numberRegEx_test :: "string \<Rightarrow> bool" where
  "numberRegEx_test amount =
     (case amount of
        [] \<Rightarrow> False
      | c # r \<Rightarrow>
          (c = CHR ''0'' \<and> optFraction r) \<or>
          (c \<in> set ''123456789'' \<and> optFraction (dropWhile isDigit r)))"

text \<open>\<open>String.prototype.split\<close> with a one-character separator.\<close>

fun split_at :: "char \<Rightarrow> string \<Rightarrow> string \<Rightarrow> string list" where
  "split_at sep cur [] = [rev cur]"
| "split_at sep cur (c # cs) =
     (if c = sep then rev cur # split_at sep [] cs else split_at sep (c # cur) cs)"

definition split :: "char \<Rightarrow> string \<Rightarrow> string list" where
  "split sep s = split_at sep [] s"

text \<open>\<open>s.padEnd(n, '0')\<close>: \<open>s\<close> itself when it is already \<open>n\<close> long or longer.\<close>

definition padEnd :: "string \<Rightarrow> int \<Rightarrow> char \<Rightarrow> string" where
  "padEnd s n c = s @ replicate (nat n - length s) c"

definition digitValue :: "char \<Rightarrow> int" where
  "digitValue c = int (of_char c) - 48"

definition digitsToInt :: "string \<Rightarrow> int" where
  "digitsToInt s = fold (\<lambda>c acc. acc * 10 + digitValue c) s 0"

text \<open>
  \<open>BigInt(string)\<close> on a string of decimal digits (the empty string gives \<open>0n\<close>);
  any other text raises a SyntaxError. Signs, white space and radix prefixes, which
  \<open>BigInt\<close> also accepts, cannot reach the call and are reported as the same error.
\<close>

definition BigInt :: "string \<Rightarrow> error + int" where
  "BigInt s = (if list_all isDigit s then Inr (digitsToInt s) else Inl (BigIntSyntaxError s))"

text \<open>
  \<open>decimals\<close> is a JavaScript number; the model takes the integral ones, for which
  \<open>Number.isSafeInteger\<close> is the bound \<open>|d| \<le> 2^53 - 1\<close>.
\<close>

definition isSafeInteger :: "int \<Rightarrow> bool" where
  "isSafeInteger d = (\<bar>d\<bar> \<le> 2 ^ 53 - 1)"

definition convertFungibleAmount :: "string \<Rightarrow> int \<Rightarrow> error + int" where
  "convertFungibleAmount amount decimals =
     (if \<not> numberRegEx_test amount then Inl InvalidAmountFormat
      else
        let parts = split (CHR ''.'') amount;
            integerPart = (case parts of [] \<Rightarrow> [] | a # _ \<Rightarrow> a);
            decimalPart = (case parts of _ # b # _ \<Rightarrow> b | _ \<Rightarrow> [])
        in if \<not> isSafeInteger decimals \<or> decimals < 0 \<or> decimals > 38
           then Inl IncorrectDecimals
           else
             let paddedDecimalPart = padEnd decimalPart decimals (CHR ''0'')
             in if int (length paddedDecimalPart) > decimals
                then Inl (DecimalPartTooLong (length paddedDecimalPart) decimals)
                else BigInt (integerPart @ paddedDecimalPart))"

text \<open>
  The value a decimal numeral denotes, following the wording of the specification
  ("the decimal string scaled by \<open>10^decimals\<close>"): the digits before the first dot as an
  integer, plus the digits after it divided by ten to the power of their number.
\<close>

definition decimalStringValue :: "string \<Rightarrow> rat" where
  "decimalStringValue s =
     (let ip = takeWhile (\<lambda>c. c \<noteq> CHR ''.'') s;
          fp = drop 1 (dropWhile (\<lambda>c. c \<noteq> CHR ''.'') s)
      in of_int (digitsToInt ip) + of_int (digitsToInt fp) / 10 ^ length fp)"

subsection \<open>A concrete chain\<close>

text \<open>
  Concrete collaborators and a concrete instance, on which the model is evaluated.
  The sanitizers accept every location; \<open>sanitizeTransferParams\<close> rejects a request
  with no assets ("non-empty asset list" in the specification); the converters tag the
  value with the version; \<open>palletApiTxName\<close> puts the first letter in lower case.
\<close>

definition lowerFirst :: "string \<Rightarrow> string" where
  "lowerFirst s =
     (case s of
        [] \<Rightarrow> []
      | c # r \<Rightarrow>
          (if c \<in> set ''ABCDEFGHIJKLMNOPQRSTUVWXYZ''
           then char_of (of_char c + (32 :: nat)) else c) # r)"

definition sampleUtil :: Util where
  "sampleUtil =
     \<lparr>sanitizeLookup = (\<lambda>l. None),
      sanitizeInterior = (\<lambda>i. None),
      sanitizeTransferParams =
        (\<lambda>tp. if tp_assets tp = [] then Some (CollaboratorError ''no assets'') else None),
      convertLocationVersion = (\<lambda>v l. Inr (VersionedLocation v l)),
      convertAssetIdVersion = (\<lambda>v l. Inr (VersionedAssetId v l)),
      prepareAssetsForEncoding = (\<lambda>v xs. Inr (v, xs)),
      palletApiTxName = lowerFirst\<rparr>"

definition sampleXcm :: SimpleXcm where
  "sampleXcm =
     \<lparr>chainName = ''Karura'',
      universalLocation = [GlobalConsensus ''kusama'', Parachain 2000],
      registryUniversalLocation =
        (\<lambda>name. if name = ''AssetHub'' then Some [GlobalConsensus ''kusama'', Parachain 1000]
                 else None),
      registryRelativeLocation =
        (\<lambda>name. if name = ''Alice'' then Some \<lparr>parents = 0, interior = [AccountId32 ''alice'']\<rparr>
                 else if name = ''Relay'' then Some \<lparr>parents = 1, interior = []\<rparr>
                 else None),
      palletXcmHasTransferAssets = False,
      metadataPallets = [''System'', ''PolkadotXcm'', ''XTokens''],
      hasLocationToAccountApi = True,
      convertLocation = (\<lambda>l. Inr ''0x616c696365''),
      estimatorXcmVersion = 4,
      xcmVersion = 4\<rparr>"

text \<open>
  A request on that chain: two assets, the second of which pays the fee, sent by the
  account registered as \<open>Alice\<close>; and the same request with no assets.
\<close>

definition sampleTransfer :: TransferParams where
  "sampleTransfer =
     \<lparr>tp_origin = OriginName ''Alice'',
      tp_assets =
        [\<lparr>lookup_id = Loc \<lparr>parents = 0, interior = [GeneralIndex 1]\<rparr>,
          lookup_fun = Fungible 100\<rparr>,
         \<lparr>lookup_id = Named ''Relay'', lookup_fun = Fungible 10\<rparr>],
      tp_feeAssetId = Named ''Relay'',
      tp_destination = Named ''AssetHub'',
      tp_beneficiary = Loc \<lparr>parents = 0, interior = [AccountId32 ''bob'']\<rparr>\<rparr>"

definition emptyTransfer :: TransferParams where
  "emptyTransfer = sampleTransfer\<lparr>tp_assets := []\<rparr>"

text \<open>What \<open>prepareTransferParams\<close> makes of \<open>sampleTransfer\<close>.\<close>

definition samplePrepared :: PreparedTransferParams where
  "samplePrepared =
     \<lparr>origin = SystemSigned ''0x616c696365'',
      assets = (4, [0, 1]),
      feeAssetId = \<lparr>parents = 1, interior = []\<rparr>,
      feeAssetIndex = 1,
      feeAnyAssetRef = 1,
      destination = \<lparr>parents = 1, interior = [Parachain 1000]\<rparr>,
      beneficiary = \<lparr>parents = 0, interior = [AccountId32 ''bob'']\<rparr>\<rparr>"

definition sampleStore :: store where
  "sampleStore =
     fst (allocate
       [\<lparr>asset_id = \<lparr>parents = 0, interior = [GeneralIndex 1]\<rparr>, asset_fun = Fungible 100\<rparr>,
        \<lparr>asset_id = \<lparr>parents = 1, interior = []\<rparr>, asset_fun = Fungible 10\<rparr>])"

text \<open>The first candidate transaction of the primary backend for that request.\<close>

definition sampleCandidate :: Extrinsic where
  "sampleCandidate =
     TransferAssets (VersionedLocation 4 (destination samplePrepared))
       (VersionedLocation 4 (beneficiary samplePrepared))
       (encodedAssets samplePrepared sampleStore) 1 ''Unlimited''"

text \<open>
  Estimators: one that fails with an aggregate of a shortfall and an error of another
  kind; one that reports a shortfall of 3, then a shortfall of 2, then the fee 0.
\<close>

definition mixedEstimator :: "Origin \<Rightarrow> Extrinsic \<Rightarrow> Location \<Rightarrow> error + int" where
  "mixedEstimator og xt feeId =
     Inl (FeeEstimationErrors [TooExpensiveFeeError 3, OtherHopError ''hop unreachable''])"

definition scriptedEstimator :: "nat \<Rightarrow> Origin \<Rightarrow> Extrinsic \<Rightarrow> Location \<Rightarrow> error + int" where
  "scriptedEstimator k og xt feeId =
     (if k = 0 then Inl (FeeEstimationErrors [TooExpensiveFeeError 3])
      else if k = 1 then Inl (FeeEstimationErrors [TooExpensiveFeeError 2])
      else Inr 0)"

section \<open>Properties\<close>

subsection \<open>\<open>enforceXcmVersion\<close>\<close>

text \<open>
  C10. \<open>enforceXcmVersion(version)\<close>: if \<open>version\<close> is greater than the maximum XCM
  version the connected chain supports (the estimator's version) the call throws and
  the instance, its active \<open>xcmVersion\<close> included, is left unchanged; otherwise the
  active \<open>xcmVersion\<close> is set to exactly the requested version.
\<close>

theorem enforceXcmVersion_spec:
  "(version > estimatorXcmVersion this \<longrightarrow>
      fst (enforceXcmVersion version this)
        = Some (XcmVersionTooHigh version (estimatorXcmVersion this)) \<and>
      snd (enforceXcmVersion version this) = this) \<and>
   (\<not> version > estimatorXcmVersion this \<longrightarrow>
      fst (enforceXcmVersion version this) = None \<and>
      snd (enforceXcmVersion version this) = this\<lparr>xcmVersion := version\<rparr>)"
  by (simp add: enforceXcmVersion_def)

theorem enforceXcmVersion_spec_witness:
  "fst (enforceXcmVersion 5 sampleXcm) = Some (XcmVersionTooHigh 5 4) \<and>
   snd (enforceXcmVersion 5 sampleXcm) = sampleXcm \<and>
   fst (enforceXcmVersion 3 sampleXcm) = None \<and>
   xcmVersion (snd (enforceXcmVersion 3 sampleXcm)) = 3"
  using enforceXcmVersion_spec [where version = 5 and this = sampleXcm]
        enforceXcmVersion_spec [where version = 3 and this = sampleXcm]
  by (simp add: sampleXcm_def)

subsection \<open>\<open>#convertFungibleAmount\<close>\<close>

text \<open>Reading a string of digits: appending digits shifts the value to the left.\<close>

lemma fold_digits: "fold (\<lambda>c acc. acc * 10 + digitValue c) s x = x * 10 ^ length s + digitsToInt s"
  unfolding digitsToInt_def
proof (induction s arbitrary: x)
  case Nil then show ?case by simp
next
  case (Cons c s)
  show ?case
    apply simp
    apply (subst Cons.IH)
    apply (subst Cons.IH[of "digitValue c"])
    apply (simp add: algebra_simps)
    done
qed

lemma digitsToInt_append: "digitsToInt (a @ b) = digitsToInt a * 10 ^ length b + digitsToInt b"
proof -
  have "digitsToInt (a @ b) = fold (\<lambda>c acc. acc * 10 + digitValue c) b (digitsToInt a)"
    by (simp add: digitsToInt_def)
  also have "\<dots> = digitsToInt a * 10 ^ length b + digitsToInt b"
    by (rule fold_digits)
  finally show ?thesis .
qed

lemma digitsToInt_zeros: "digitsToInt (replicate k (CHR ''0'')) = 0"
  by (induction k) (simp_all add: digitsToInt_def digitValue_def)

lemma split_at_eq:
  "split_at sep cur s =
     (rev cur @ takeWhile (\<lambda>c. c \<noteq> sep) s) #
       (case dropWhile (\<lambda>c. c \<noteq> sep) s of [] \<Rightarrow> [] | _ # r \<Rightarrow> split_at sep [] r)"
  by (induction s arbitrary: cur) auto

lemma digit_not_dot: "isDigit c \<Longrightarrow> c \<noteq> CHR ''.''"
  by (auto simp: isDigit_def)

lemma digits_no_dot: "list_all isDigit s \<Longrightarrow> takeWhile (\<lambda>c. c \<noteq> CHR ''.'') s = s \<and> dropWhile (\<lambda>c. c \<noteq> CHR ''.'') s = []"
  by (induction s) (auto simp: digit_not_dot)

lemma optFraction_cases:
  "optFraction s \<Longrightarrow> s = [] \<or> (\<exists>fp. s = CHR ''.'' # fp \<and> list_all isDigit fp)"
  by (auto simp: optFraction_def digits1_def split: list.splits)


lemma dropWhile_dot_digits:
  "dropWhile (\<lambda>c. c \<noteq> CHR ''.'') (dropWhile isDigit r) = dropWhile (\<lambda>c. c \<noteq> CHR ''.'') r"
  by (induction r) (auto simp: digit_not_dot)

lemma regex_fraction_digits:
  assumes "numberRegEx_test s"
  shows "list_all isDigit (drop 1 (dropWhile (\<lambda>c. c \<noteq> CHR ''.'') s))"
proof (cases s)
  case Nil
  then show ?thesis by simp
next
  case (Cons c r)
  from assms Cons consider
      (zero) "c = CHR ''0''" "optFraction r"
    | (nonzero) "c \<in> set ''123456789''" "optFraction (dropWhile isDigit r)"
    by (auto simp: numberRegEx_test_def)
  then show ?thesis
  proof cases
    case zero
    from optFraction_cases[OF zero(2)] show ?thesis
      using Cons zero(1) by auto
  next
    case nonzero
    from nonzero(1) have nd: "c \<noteq> CHR ''.''" by auto
    from optFraction_cases[OF nonzero(2)] show ?thesis
    proof
      assume e: "dropWhile isDigit r = []"
      have "dropWhile (\<lambda>c. c \<noteq> CHR ''.'') r = []"
        using dropWhile_dot_digits[of r] e by simp
      then show ?thesis using Cons nd by (simp del: dropWhile_eq_Nil_conv)
    next
      assume "\<exists>fp. dropWhile isDigit r = CHR ''.'' # fp \<and> list_all isDigit fp"
      then obtain fp where fp: "dropWhile isDigit r = CHR ''.'' # fp" "list_all isDigit fp"
        by blast
      have "dropWhile (\<lambda>c. c \<noteq> CHR ''.'') r = CHR ''.'' # fp"
        using dropWhile_dot_digits[of r] fp(1) by simp
      then show ?thesis using Cons nd fp(2) by simp
    qed
  qed
qed

lemma split_parts:
  "split (CHR ''.'') s =
     takeWhile (\<lambda>c. c \<noteq> CHR ''.'') s #
       (case dropWhile (\<lambda>c. c \<noteq> CHR ''.'') s of [] \<Rightarrow> [] | _ # r \<Rightarrow> split_at (CHR ''.'') [] r)"
  unfolding split_def by (subst split_at_eq) simp

lemma split_decimalPart:
  assumes "list_all isDigit (drop 1 (dropWhile (\<lambda>c. c \<noteq> CHR ''.'') s))"
  shows "(case split (CHR ''.'') s of _ # b # _ \<Rightarrow> b | _ \<Rightarrow> []) = drop 1 (dropWhile (\<lambda>c. c \<noteq> CHR ''.'') s)"
proof (cases "dropWhile (\<lambda>c. c \<noteq> CHR ''.'') s")
  case Nil
  then show ?thesis by (simp add: split_parts del: dropWhile_eq_Nil_conv)
next
  case (Cons d r)
  with assms have "list_all isDigit r" by simp
  then have "takeWhile (\<lambda>c. c \<noteq> CHR ''.'') r = r" by (simp add: digits_no_dot)
  then show ?thesis using Cons
    by (simp add: split_parts) (subst split_at_eq, simp)
qed

lemma split_integerPart:
  "(case split (CHR ''.'') s of [] \<Rightarrow> [] | a # _ \<Rightarrow> a) = takeWhile (\<lambda>c. c \<noteq> CHR ''.'') s"
  by (simp add: split_parts)

lemma scaled_value:
  fixes ip fp :: string and d :: nat
  assumes "length fp \<le> d"
  shows "of_int (digitsToInt (ip @ fp @ replicate (d - length fp) (CHR ''0'')))
           = ((of_int (digitsToInt ip) + of_int (digitsToInt fp) / 10 ^ length fp) * 10 ^ d :: rat)"
proof -
  let ?k = "d - length fp"
  have d: "d = length fp + ?k" using assms by simp
  have "digitsToInt (ip @ fp @ replicate ?k (CHR ''0''))
          = digitsToInt ip * 10 ^ d + digitsToInt fp * 10 ^ ?k"
    using assms by (simp add: digitsToInt_append digitsToInt_zeros)
  moreover have "(10::rat) ^ d = 10 ^ length fp * 10 ^ ?k"
    by (subst d) (simp add: power_add)
  ultimately show ?thesis
    by (simp add: algebra_simps)
qed

lemma convertFungibleAmount_scaled:
  assumes "convertFungibleAmount amount decimals = Inr r"
  shows "of_int r = decimalStringValue amount * 10 ^ nat decimals"
proof -
  let ?ip = "takeWhile (\<lambda>c. c \<noteq> CHR ''.'') amount"
  let ?fp = "drop 1 (dropWhile (\<lambda>c. c \<noteq> CHR ''.'') amount)"
  from assms have valid: "numberRegEx_test amount"
    by (auto simp: convertFungibleAmount_def split: if_splits)
  note fd = regex_fraction_digits[OF valid]
  from assms valid have dec: "0 \<le> decimals"
    by (auto simp: convertFungibleAmount_def Let_def split: if_splits)
  from assms valid have len: "int (length (padEnd ?fp decimals (CHR ''0''))) \<le> decimals"
    by (auto simp: convertFungibleAmount_def Let_def split_integerPart split_decimalPart[OF fd]
             split: if_splits)
  then have le: "length ?fp \<le> nat decimals"
    by (simp add: padEnd_def)
  from assms valid have "BigInt (?ip @ padEnd ?fp decimals (CHR ''0'')) = Inr r"
    by (auto simp: convertFungibleAmount_def Let_def split_integerPart split_decimalPart[OF fd]
             split: if_splits)
  then have "r = digitsToInt (?ip @ ?fp @ replicate (nat decimals - length ?fp) (CHR ''0''))"
    by (auto simp: BigInt_def padEnd_def split: if_splits)
  then show ?thesis
    using scaled_value[OF le, of ?ip]
    by (simp add: decimalStringValue_def Let_def)
qed

lemma convert_1_5: "convertFungibleAmount ''1.5'' 10 = Inr 15000000000"
  by code_simp

lemma convert_023: "convertFungibleAmount ''023'' decimals = Inl InvalidAmountFormat"
  by (simp add: convertFungibleAmount_def numberRegEx_test_def optFraction_def)

lemma convert_too_long:
  "convertFungibleAmount ''1.23456789012'' 10 = Inl (DecimalPartTooLong 11 10)"
  by code_simp

text \<open>
  C8. \<open>#convertFungibleAmount\<close>: \<open>"1.5"\<close> with \<open>decimals = 10\<close> gives the integer
  \<open>15000000000\<close>; \<open>"023"\<close> fails with the invalid-amount-format error, whatever the
  decimals; \<open>"1.23456789012"\<close> with \<open>decimals = 10\<close> fails because its decimal part
  (11 digits) is longer than the decimals; and every successful result is the integer
  equal to the value of the decimal string multiplied by \<open>10^decimals\<close>.
\<close>

theorem convertFungibleAmount_spec:
  "convertFungibleAmount ''1.5'' 10 = Inr 15000000000 \<and>
   convertFungibleAmount ''023'' d0 = Inl InvalidAmountFormat \<and>
   convertFungibleAmount ''1.23456789012'' 10 = Inl (DecimalPartTooLong 11 10) \<and>
   (convertFungibleAmount amount decimals = Inr r \<longrightarrow>
      of_int r = decimalStringValue amount * 10 ^ nat decimals)"
  using convert_1_5 convert_023 convert_too_long convertFungibleAmount_scaled by blast

theorem convertFungibleAmount_spec_witness:
  "convertFungibleAmount ''0.25'' 3 = Inr 250 \<and>
   rat_of_int 250 = decimalStringValue ''0.25'' * 10 ^ nat 3"
proof -
  have c: "convertFungibleAmount ''0.25'' 3 = Inr 250"
    by code_simp
  from convertFungibleAmount_spec [where amount = "''0.25''" and decimals = 3 and r = 250] c
  show ?thesis by blast
qed

subsection \<open>\<open>tryEstimateExtrinsicXcmFees\<close>\<close>

lemma foldl_missing:
  "foldl (\<lambda>sum e. sum + missingAmount e) a xs = a + sum_list (map missingAmount xs)"
  by (induction xs arbitrary: a) simp_all

text \<open>
  C2 (as amended). When the estimator throws an aggregated multi-hop failure: if at
  least one sub-failure is a too-expensive shortfall, the missing amounts of the
  too-expensive sub-failures are summed and returned as a single recoverable shortfall,
  the sub-failures of other kinds being left out; if no sub-failure is a too-expensive
  shortfall, the whole aggregate is rethrown.
\<close>

theorem tryEstimate_aggregate:
  assumes "est og xt feeId = Inl (FeeEstimationErrors errs)"
  shows "(filter isTooExpensiveFeeError errs \<noteq> [] \<longrightarrow>
            tryEstimateExtrinsicXcmFees est og xt feeId
              = Inr (Error (sum_list (map missingAmount (filter isTooExpensiveFeeError errs))))) \<and>
         (filter isTooExpensiveFeeError errs = [] \<longrightarrow>
            tryEstimateExtrinsicXcmFees est og xt feeId = Inl (FeeEstimationErrors errs))"
  using assms by (simp add: tryEstimateExtrinsicXcmFees_def Let_def foldl_missing)

theorem tryEstimate_aggregate_witness:
  "tryEstimateExtrinsicXcmFees (scriptedEstimator 0) (origin samplePrepared) sampleCandidate
     (feeAssetId samplePrepared) = Inr (Error 3)"
  using tryEstimate_aggregate [where est = "scriptedEstimator 0" and og = "origin samplePrepared"
          and xt = sampleCandidate and feeId = "feeAssetId samplePrepared"
          and errs = "[TooExpensiveFeeError 3]"]
  by (simp add: scriptedEstimator_def isTooExpensiveFeeError_def)

text \<open>
  An aggregate of a shortfall of 3 and a failure of another kind is not rethrown: the
  result is the recoverable shortfall 3.
\<close>

theorem tryEstimate_mixed_cex:
  "mixedEstimator (origin samplePrepared) sampleCandidate (feeAssetId samplePrepared)
     = Inl (FeeEstimationErrors [TooExpensiveFeeError 3, OtherHopError ''hop unreachable'']) \<and>
   \<not> isTooExpensiveFeeError (OtherHopError ''hop unreachable'') \<and>
   tryEstimateExtrinsicXcmFees mixedEstimator (origin samplePrepared) sampleCandidate
     (feeAssetId samplePrepared) = Inr (Error 3)"
  by (simp add: mixedEstimator_def tryEstimateExtrinsicXcmFees_def isTooExpensiveFeeError_def)

subsection \<open>\<open>#transferBackend\<close>\<close>

lemma fold_scanPallet: "snd (fold (scanPallet u) ps st) = snd st"
  by (induction ps arbitrary: st) (simp_all add: scanPallet_def split: prod.splits)

text \<open>
  C3 (as amended). Backend selection: if the chain's pallet-xcm exposes the
  \<open>transferAssets\<close> extrinsic, the primary pallet-xcm backend is selected; if it does
  not, the declared pallets are scanned, no pallet name is recognized as an alternate
  backend, and the selection fails with the "no known XCM transfer backend" error
  naming the chain.
\<close>

theorem transferBackend_spec:
  "(palletXcmHasTransferAssets this \<longrightarrow> transferBackend u this = Inr PalletXcmBackend) \<and>
   (\<not> palletXcmHasTransferAssets this \<longrightarrow>
      transferBackend u this = Inl (NoKnownBackend (chainName this)))"
proof -
  have "snd (fold (scanPallet u) (metadataPallets this) (None, None)) = None"
    by (simp add: fold_scanPallet)
  then show ?thesis
    by (auto simp: transferBackend_def split: prod.splits option.splits)
qed

theorem transferBackend_spec_witness:
  "transferBackend sampleUtil (sampleXcm\<lparr>palletXcmHasTransferAssets := True\<rparr>) = Inr PalletXcmBackend \<and>
   transferBackend sampleUtil sampleXcm = Inl (NoKnownBackend ''Karura'')"
  using transferBackend_spec [where u = sampleUtil and this = "sampleXcm\<lparr>palletXcmHasTransferAssets := True\<rparr>"]
        transferBackend_spec [where u = sampleUtil and this = sampleXcm]
  by (simp add: sampleXcm_def)

text \<open>
  A chain whose pallet-xcm lacks \<open>transferAssets\<close> and which declares the pallet
  \<open>XTokens\<close> (\<open>xTokens\<close> as a transaction name): the selection fails.
\<close>

theorem transferBackend_cex:
  "\<not> palletXcmHasTransferAssets sampleXcm \<and>
   ''XTokens'' \<in> set (metadataPallets sampleXcm) \<and>
   palletApiTxName sampleUtil ''XTokens'' = ''xTokens'' \<and>
   transferBackend sampleUtil sampleXcm = Inl (NoKnownBackend ''Karura'')"
  by code_simp

subsection \<open>Named lookups\<close>

text \<open>
  C6. For a string lookup given to \<open>resolveRelativeLocation\<close> or
  \<open>resolveUniversalLocation\<close>: the registry's universal location of the name is tried
  first (and, for \<open>resolveRelativeLocation\<close>, re-expressed relative to the calling
  chain's universal location); only if there is none, the registry's relative location
  of the name is tried (returned as it is, or lifted to a universal location); if
  neither is known, the call fails with the unknown-named-location error that names
  the key.
\<close>

theorem resolve_named:
  "(registryUniversalLocation this name = Some ul \<longrightarrow>
      resolveRelativeLocation u this (Inr (Named name))
        = Inr (locationRelativeToPrefix ul (universalLocation this)) \<and>
      resolveUniversalLocation u this (INamed name) = Inr ul) \<and>
   (registryUniversalLocation this name = None \<and> registryRelativeLocation this name = Some rl \<longrightarrow>
      resolveRelativeLocation u this (Inr (Named name)) = Inr rl \<and>
      resolveUniversalLocation u this (INamed name)
        = relativeLocationToUniversal rl (universalLocation this)) \<and>
   (registryUniversalLocation this name = None \<and> registryRelativeLocation this name = None \<longrightarrow>
      resolveRelativeLocation u this (Inr (Named name)) = Inl (UnknownNamedLocation name) \<and>
      resolveUniversalLocation u this (INamed name) = Inl (UnknownNamedLocation name))"
  by (simp add: resolveRelativeLocation_def resolveUniversalLocation_def)

theorem resolve_named_witness:
  "resolveRelativeLocation sampleUtil sampleXcm (Inr (Named ''AssetHub''))
     = Inr \<lparr>parents = 1, interior = [Parachain 1000]\<rparr> \<and>
   resolveUniversalLocation sampleUtil sampleXcm (INamed ''AssetHub'')
     = Inr [GlobalConsensus ''kusama'', Parachain 1000] \<and>
   resolveRelativeLocation sampleUtil sampleXcm (Inr (Named ''Relay''))
     = Inr \<lparr>parents = 1, interior = []\<rparr> \<and>
   resolveUniversalLocation sampleUtil sampleXcm (INamed ''Relay'')
     = Inr [GlobalConsensus ''kusama''] \<and>
   resolveRelativeLocation sampleUtil sampleXcm (Inr (Named ''Acala''))
     = Inl (UnknownNamedLocation ''Acala'') \<and>
   resolveUniversalLocation sampleUtil sampleXcm (INamed ''Acala'')
     = Inl (UnknownNamedLocation ''Acala'')"
  using resolve_named [where u = sampleUtil and this = sampleXcm and name = "''AssetHub''"
          and ul = "[GlobalConsensus ''kusama'', Parachain 1000]"]
        resolve_named [where u = sampleUtil and this = sampleXcm and name = "''Relay''"
          and rl = "\<lparr>parents = 1, interior = []\<rparr>"]
        resolve_named [where u = sampleUtil and this = sampleXcm and name = "''Acala''"]
  by (simp add: sampleXcm_def locationRelativeToPrefix_def relativeLocationToUniversal_def)

subsection \<open>Validation and network interaction in \<open>prepareTransferParams\<close>\<close>

lemma locationToAccountId_Loc_trace:
  "snd (locationToAccountId u x (Loc l)) = [] \<or>
   snd (locationToAccountId u x (Loc l)) = [ConvertLocationCall (VersionedLocation 4 l)]"
  by (simp add: Let_def split: option.splits sum.splits)

lemma locationToAccountId_trace:
  "snd (locationToAccountId u x lk) = [] \<or>
   (\<exists>l. snd (locationToAccountId u x lk) = [ConvertLocationCall (VersionedLocation 4 l)])"
proof (cases lk)
  case (Loc l)
  then show ?thesis using locationToAccountId_Loc_trace[of u x l] by blast
next
  case (Named name)
  show ?thesis
  proof (cases "hasLocationToAccountApi x")
    case False
    then show ?thesis using Named by simp
  next
    case True
    show ?thesis
    proof (cases "resolveRelativeLocation u x (Inr (Named name))")
      case (Inl e)
      then show ?thesis using Named True by simp
    next
      case (Inr l)
      then have "locationToAccountId u x lk = locationToAccountId u x (Loc l)"
        using Named True by (subst locationToAccountId.simps) simp
      then show ?thesis using locationToAccountId_Loc_trace[of u x l] by auto
    qed
  qed
qed

lemma prepare_trace:
  "snd (prepareTransferParams u x tp) =
     (case tp_origin tp of
        OriginName name \<Rightarrow> snd (locationToAccountId u x (Named name))
      | OriginValue og \<Rightarrow> [])"
  by (simp add: prepareTransferParams_def split: OriginLookup.splits prod.splits sum.splits)

lemma locationToAccountId_Loc_account:
  assumes "fst (locationToAccountId u x (Loc l)) = Inr account"
  shows "snd (locationToAccountId u x (Loc l)) = [ConvertLocationCall (VersionedLocation 4 l)]"
  using assms by (simp add: Let_def split: if_splits option.splits sum.splits)

lemma locationToAccountId_account:
  assumes "fst (locationToAccountId u x (Named name)) = Inr account"
  shows "\<exists>l. resolveRelativeLocation u x (Inr (Named name)) = Inr l \<and>
             snd (locationToAccountId u x (Named name))
               = [ConvertLocationCall (VersionedLocation 4 l)]"
proof (cases "hasLocationToAccountApi x")
  case False
  with assms show ?thesis by simp
next
  case True
  show ?thesis
  proof (cases "resolveRelativeLocation u x (Inr (Named name))")
    case (Inl e)
    with assms True show ?thesis by simp
  next
    case (Inr l)
    then have eq: "locationToAccountId u x (Named name) = locationToAccountId u x (Loc l)"
      using True by (subst locationToAccountId.simps) simp
    with assms have "fst (locationToAccountId u x (Loc l)) = Inr account" by simp
    from locationToAccountId_Loc_account[OF this] Inr eq show ?thesis by simp
  qed
qed

lemma sample_account:
  "locationToAccountId sampleUtil sampleXcm (Named ''Alice'')
     = (Inr ''0x616c696365'',
        [ConvertLocationCall (VersionedLocation 4 \<lparr>parents = 0, interior = [AccountId32 ''alice'']\<rparr>)])"
  by (simp add: sampleUtil_def sampleXcm_def resolveRelativeLocation_def)

lemma sample_unknown_account:
  "locationToAccountId sampleUtil sampleXcm (Named ''Nobody'')
     = (Inl (UnknownNamedLocation ''Nobody''), [])"
  by (simp add: sampleUtil_def sampleXcm_def resolveRelativeLocation_def)

text \<open>
  C9 (as amended). For every transfer request that the structural validation rejects,
  \<open>prepareTransferParams\<close> fails and performs no fee-estimation dry-run. When the
  origin is given as an origin value, it fails with the validation error before any
  interaction with the node. When the origin is a registry name, the origin is resolved
  first. If that resolution fails, \<open>prepareTransferParams\<close> fails with the
  resolution's error and the validation is not reached. If it returns an account, the
  name has resolved to a location, exactly one \<open>convertLocation\<close> runtime call has
  been made, for that location, and only then the validation rejects the request with
  the validation error.
\<close>

theorem prepare_malformed:
  assumes "sanitizeTransferParams u tp = Some e"
  shows "(\<exists>e'. fst (prepareTransferParams u x tp) = Inl e') \<and>
         (tp_origin tp = OriginValue og \<longrightarrow> prepareTransferParams u x tp = (Inl e, [])) \<and>
         (tp_origin tp = OriginName name \<and>
          fst (locationToAccountId u x (Named name)) = Inl err \<longrightarrow>
            prepareTransferParams u x tp
              = (Inl err, snd (locationToAccountId u x (Named name)))) \<and>
         (tp_origin tp = OriginName name \<and>
          fst (locationToAccountId u x (Named name)) = Inr account \<longrightarrow>
            (\<exists>l. resolveRelativeLocation u x (Inr (Named name)) = Inr l \<and>
                 prepareTransferParams u x tp
                   = (Inl e, [ConvertLocationCall (VersionedLocation 4 l)]))) \<and>
         EstimateFeesCall eo ex ef \<notin> set (snd (prepareTransferParams u x tp))"
proof -
  have a: "\<exists>e'. fst (prepareTransferParams u x tp) = Inl e'"
    using assms
    by (auto simp: prepareTransferParams_def split: OriginLookup.splits prod.splits sum.splits)
  have b: "tp_origin tp = OriginValue og \<longrightarrow> prepareTransferParams u x tp = (Inl e, [])"
    using assms by (simp add: prepareTransferParams_def)
  have c: "tp_origin tp = OriginName name \<and>
          fst (locationToAccountId u x (Named name)) = Inl err \<longrightarrow>
            prepareTransferParams u x tp
              = (Inl err, snd (locationToAccountId u x (Named name)))"
    by (auto simp: prepareTransferParams_def split: prod.splits sum.splits)
  have d: "tp_origin tp = OriginName name \<and>
          fst (locationToAccountId u x (Named name)) = Inr account \<longrightarrow>
            (\<exists>l. resolveRelativeLocation u x (Inr (Named name)) = Inr l \<and>
                 prepareTransferParams u x tp
                   = (Inl e, [ConvertLocationCall (VersionedLocation 4 l)]))"
  proof
    assume h: "tp_origin tp = OriginName name \<and>
          fst (locationToAccountId u x (Named name)) = Inr account"
    from locationToAccountId_account[of u x name account] h obtain l where
      l: "resolveRelativeLocation u x (Inr (Named name)) = Inr l"
         "snd (locationToAccountId u x (Named name))
            = [ConvertLocationCall (VersionedLocation 4 l)]"
      by blast
    from h l(2) have pair: "locationToAccountId u x (Named name)
        = (Inr account, [ConvertLocationCall (VersionedLocation 4 l)])"
      by (simp add: prod_eq_iff del: locationToAccountId.simps)
    from h assms have "prepareTransferParams u x tp
                   = (Inl e, [ConvertLocationCall (VersionedLocation 4 l)])"
      by (simp add: prepareTransferParams_def pair del: locationToAccountId.simps)
    with l(1) show "\<exists>l. resolveRelativeLocation u x (Inr (Named name)) = Inr l \<and>
                 prepareTransferParams u x tp
                   = (Inl e, [ConvertLocationCall (VersionedLocation 4 l)])"
      by blast
  qed
  have f: "EstimateFeesCall eo ex ef \<notin> set (snd (prepareTransferParams u x tp))"
  proof (cases "tp_origin tp")
    case (OriginValue v)
    then show ?thesis by (simp add: prepare_trace)
  next
    case (OriginName n)
    then show ?thesis
      using locationToAccountId_trace[of u x "Named n"] by (auto simp: prepare_trace)
  qed
  from a b c d f show ?thesis by blast
qed

theorem prepare_malformed_witness:
  "prepareTransferParams sampleUtil sampleXcm
      (emptyTransfer\<lparr>tp_origin := OriginValue (SystemSigned ''0x01'')\<rparr>)
     = (Inl (CollaboratorError ''no assets''), []) \<and>
   prepareTransferParams sampleUtil sampleXcm (emptyTransfer\<lparr>tp_origin := OriginName ''Nobody''\<rparr>)
     = (Inl (UnknownNamedLocation ''Nobody''), []) \<and>
   (\<exists>l. resolveRelativeLocation sampleUtil sampleXcm (Inr (Named ''Alice'')) = Inr l \<and>
        prepareTransferParams sampleUtil sampleXcm emptyTransfer
          = (Inl (CollaboratorError ''no assets''),
             [ConvertLocationCall (VersionedLocation 4 l)]))"
proof -
  have san: "\<And>o'. sanitizeTransferParams sampleUtil (emptyTransfer\<lparr>tp_origin := o'\<rparr>)
               = Some (CollaboratorError ''no assets'')"
    by (simp add: sampleUtil_def emptyTransfer_def sampleTransfer_def)
  have san0: "sanitizeTransferParams sampleUtil emptyTransfer
               = Some (CollaboratorError ''no assets'')"
    by (simp add: sampleUtil_def emptyTransfer_def sampleTransfer_def)
  have 1: "prepareTransferParams sampleUtil sampleXcm
      (emptyTransfer\<lparr>tp_origin := OriginValue (SystemSigned ''0x01'')\<rparr>)
     = (Inl (CollaboratorError ''no assets''), [])"
    using prepare_malformed [OF san [of "OriginValue (SystemSigned ''0x01'')"],
            where x = sampleXcm and og = "SystemSigned ''0x01''"]
    by simp
  have 2: "prepareTransferParams sampleUtil sampleXcm (emptyTransfer\<lparr>tp_origin := OriginName ''Nobody''\<rparr>)
     = (Inl (UnknownNamedLocation ''Nobody''), [])"
    using prepare_malformed [OF san [of "OriginName ''Nobody''"],
            where x = sampleXcm and name = "''Nobody''"
            and err = "UnknownNamedLocation ''Nobody''"]
    by (simp add: sample_unknown_account del: locationToAccountId.simps)
  have 3: "\<exists>l. resolveRelativeLocation sampleUtil sampleXcm (Inr (Named ''Alice'')) = Inr l \<and>
        prepareTransferParams sampleUtil sampleXcm emptyTransfer
          = (Inl (CollaboratorError ''no assets''),
             [ConvertLocationCall (VersionedLocation 4 l)])"
    using prepare_malformed [OF san0, where x = sampleXcm and name = "''Alice''"
            and account = "''0x616c696365''"]
    by (simp add: sample_account emptyTransfer_def sampleTransfer_def
          del: locationToAccountId.simps)
  from 1 2 3 show ?thesis by blast
qed

text \<open>
  A request with a named origin and no assets: the \<open>convertLocation\<close> runtime call for
  the origin is made, and then the validation rejects the request.
\<close>

theorem prepare_malformed_cex:
  "sanitizeTransferParams sampleUtil emptyTransfer = Some (CollaboratorError ''no assets'') \<and>
   prepareTransferParams sampleUtil sampleXcm emptyTransfer
     = (Inl (CollaboratorError ''no assets''),
        [ConvertLocationCall
           (VersionedLocation 4 \<lparr>parents = 0, interior = [AccountId32 ''alice'']\<rparr>)])"
  by (simp add: sampleUtil_def emptyTransfer_def sampleTransfer_def sampleXcm_def
        prepareTransferParams_def resolveRelativeLocation_def)

subsection \<open>Locating the fee asset\<close>

lemma findFeeAssetFrom_None:
  "(findFeeAssetFrom h i as k = None) = (\<forall>a\<in>set as. map_option asset_id (h a) \<noteq> Some i)"
  by (induction as arbitrary: k) auto

lemma findFeeAssetFrom_Some:
  "findFeeAssetFrom h i as k = Some (a, idx) \<Longrightarrow>
     k \<le> idx \<and> idx - k < length as \<and> as ! (idx - k) = a \<and> map_option asset_id (h a) = Some i"
proof (induction as arbitrary: k)
  case Nil
  then show ?case by simp
next
  case (Cons b bs)
  show ?case
  proof (cases "map_option asset_id (h b) = Some i")
    case True
    with Cons.prems show ?thesis by (simp del: map_option_eq_Some)
  next
    case False
    with Cons.prems have "findFeeAssetFrom h i bs (Suc k) = Some (a, idx)"
      by (simp del: map_option_eq_Some)
    from Cons.IH[OF this]
    have ih: "Suc k \<le> idx" "idx - Suc k < length bs" "bs ! (idx - Suc k) = a"
      "map_option asset_id (h a) = Some i"
      by blast+
    from ih(1) have e: "idx - k = Suc (idx - Suc k)" by arith
    from ih show ?thesis by (simp add: e del: map_option_eq_Some)
  qed
qed

lemma allocate_store: "fst (allocate xs) a = (if a < length xs then Some (xs ! a) else None)"
  by (simp add: allocate_def)

lemma allocate_refs: "snd (allocate xs) = [0..<length xs]"
  by (simp add: allocate_def)

lemma allocate_encoded: "map (fst (allocate xs)) (snd (allocate xs)) = map Some xs"
proof -
  have "map (fst (allocate xs)) [0..<length xs] = map (\<lambda>a. Some (xs ! a)) [0..<length xs]"
    by (rule map_cong) (simp_all add: allocate_def)
  also have "\<dots> = map Some (map ((!) xs) [0..<length xs])"
    by (simp add: comp_def)
  also have "\<dots> = map Some xs"
    by (simp only: map_nth)
  finally show ?thesis by (simp add: allocate_refs)
qed

lemma findFeeAsset_allocate_None:
  "(findFeeAssetById (VersionedAssetId v i) (fst (allocate xs)) (w, snd (allocate xs)) = None)
     = (\<forall>a\<in>set xs. asset_id a \<noteq> i)"
  by (simp add: findFeeAssetById_def findFeeAssetFrom_None allocate_def all_set_conv_all_nth)
     auto

lemma findFeeAsset_allocate_Some:
  assumes "findFeeAssetById (VersionedAssetId v i) (fst (allocate xs)) (w, snd (allocate xs))
             = Some (a, idx)"
  shows "idx < length xs \<and> a = idx \<and> asset_id (xs ! idx) = i"
proof -
  from assms have "findFeeAssetFrom (fst (allocate xs)) i [0..<length xs] 0 = Some (a, idx)"
    by (simp add: findFeeAssetById_def allocate_refs)
  from findFeeAssetFrom_Some[OF this]
  have 1: "idx < length xs" and 2: "[0..<length xs] ! idx = a"
    and 3: "map_option asset_id (fst (allocate xs) a) = Some i"
    by simp_all
  from 1 2 have "a = idx" by simp
  with 1 3 show ?thesis by (simp add: allocate_store)
qed

lemma prepare_sample:
  "fst (prepareTransferParams sampleUtil sampleXcm sampleTransfer) = Inr (samplePrepared, sampleStore)"
  by (simp add: prepareTransferParams_def sample_account)
     (simp add: sampleUtil_def sampleXcm_def sampleTransfer_def resolveRelativeLocation_def
        resolveRelativeAsset_def locationRelativeToPrefix_def allocate_def findFeeAssetById_def
        samplePrepared_def sampleStore_def)

lemma prepare_sample_ascending:
  "fst (prepareTransferParams sampleUtil sampleXcm
          (sampleTransfer\<lparr>tp_beneficiary := Loc \<lparr>parents = 1, interior = [AccountId32 ''bob'']\<rparr>\<rparr>))
     = Inr (samplePrepared\<lparr>beneficiary := \<lparr>parents = 1, interior = [AccountId32 ''bob'']\<rparr>\<rparr>,
            sampleStore)"
  by (simp add: prepareTransferParams_def sample_account)
     (simp add: sampleUtil_def sampleXcm_def sampleTransfer_def resolveRelativeLocation_def
        resolveRelativeAsset_def locationRelativeToPrefix_def allocate_def findFeeAssetById_def
        samplePrepared_def sampleStore_def)

text \<open>
  C4. Take a transfer request whose origin, destination, beneficiary, fee-asset id and
  assets resolve, and whose resolved assets are canonicalized to the vector
  \<open>canonical\<close>. If no asset of \<open>canonical\<close> has the (converted) fee-asset id,
  \<open>prepareTransferParams\<close> fails with the error "the fee asset isn't part of the
  transfer", which names the chain. If some asset has it, the prepared parameters hold
  the canonical vector, the index of an entry with that id, and a reference to that
  very entry of the vector.
\<close>

theorem prepare_fee_asset:
  assumes org: "tp_origin tp = OriginValue og \<or>
                (\<exists>name account trace. tp_origin tp = OriginName name \<and>
                   locationToAccountId u x (Named name) = (Inr account, trace) \<and>
                   og = SystemSigned account)"
    and san: "sanitizeTransferParams u tp = None"
    and dst: "resolveRelativeLocation u x (Inr (tp_destination tp)) = Inr d"
    and ben: "resolveRelativeLocation u x (Inr (tp_beneficiary tp)) = Inr b"
    and fee: "resolveRelativeLocation u x (Inr (tp_feeAssetId tp)) = Inr f"
    and res: "resolveAssets u x (tp_assets tp) = Inr resolved"
    and enc: "prepareAssetsForEncoding u (xcmVersion x) resolved = Inr (v, canonical)"
    and cnv: "convertAssetIdVersion u (xcmVersion x) f = Inr (VersionedAssetId w cf)"
  shows "((\<forall>a\<in>set canonical. asset_id a \<noteq> cf) \<longrightarrow>
            fst (prepareTransferParams u x tp) = Inl (FeeAssetNotInTransfer (chainName x))) \<and>
         ((\<exists>a\<in>set canonical. asset_id a = cf) \<longrightarrow>
            (\<exists>p h. fst (prepareTransferParams u x tp) = Inr (p, h) \<and>
               fst (assets p) = v \<and> map h (snd (assets p)) = map Some canonical \<and>
               feeAssetIndex p < length canonical \<and>
               asset_id (canonical ! feeAssetIndex p) = cf \<and>
               feeAnyAssetRef p = snd (assets p) ! feeAssetIndex p \<and>
               h (feeAnyAssetRef p) = Some (canonical ! feeAssetIndex p) \<and>
               origin p = og \<and> feeAssetId p = f \<and> destination p = d \<and> beneficiary p = b))"
proof -
  let ?h = "fst (allocate canonical)" and ?refs = "snd (allocate canonical)"
  let ?found = "findFeeAssetById (VersionedAssetId w cf) ?h (v, ?refs)"
  have unfold: "fst (prepareTransferParams u x tp) =
      (case ?found of
          None \<Rightarrow> Inl (FeeAssetNotInTransfer (chainName x))
        | Some (feeAnyAsset, index) \<Rightarrow>
            Inr (\<lparr>origin = og, assets = (v, ?refs), feeAssetId = f,
                  feeAssetIndex = index, feeAnyAssetRef = feeAnyAsset,
                  destination = d, beneficiary = b\<rparr>, ?h))"
    using org
  proof
    assume "tp_origin tp = OriginValue og"
    then show ?thesis
      using san dst ben fee res enc cnv
      by (simp add: prepareTransferParams_def split_beta cong: option.case_cong)
  next
    assume "\<exists>name account trace. tp_origin tp = OriginName name \<and>
                   locationToAccountId u x (Named name) = (Inr account, trace) \<and>
                   og = SystemSigned account"
    then obtain name account trace where
      "tp_origin tp = OriginName name"
      "locationToAccountId u x (Named name) = (Inr account, trace)"
      "og = SystemSigned account"
      by blast
    then show ?thesis
      using san dst ben fee res enc cnv
      by (simp add: prepareTransferParams_def split_beta cong: option.case_cong)
  qed
  have absent: "(\<forall>a\<in>set canonical. asset_id a \<noteq> cf) \<longrightarrow>
            fst (prepareTransferParams u x tp) = Inl (FeeAssetNotInTransfer (chainName x))"
  proof
    assume "\<forall>a\<in>set canonical. asset_id a \<noteq> cf"
    then have "?found = None" by (simp only: findFeeAsset_allocate_None)
    then show "fst (prepareTransferParams u x tp) = Inl (FeeAssetNotInTransfer (chainName x))"
      by (simp add: unfold)
  qed
  have present: "(\<exists>a\<in>set canonical. asset_id a = cf) \<longrightarrow>
            (\<exists>p h. fst (prepareTransferParams u x tp) = Inr (p, h) \<and>
               fst (assets p) = v \<and> map h (snd (assets p)) = map Some canonical \<and>
               feeAssetIndex p < length canonical \<and>
               asset_id (canonical ! feeAssetIndex p) = cf \<and>
               feeAnyAssetRef p = snd (assets p) ! feeAssetIndex p \<and>
               h (feeAnyAssetRef p) = Some (canonical ! feeAssetIndex p) \<and>
               origin p = og \<and> feeAssetId p = f \<and> destination p = d \<and> beneficiary p = b)"
  proof
    assume "\<exists>a\<in>set canonical. asset_id a = cf"
    then have "?found \<noteq> None" by (simp only: findFeeAsset_allocate_None) blast
    then obtain a idx where found: "?found = Some (a, idx)" by auto
    from findFeeAsset_allocate_Some[OF found]
    have idx: "idx < length canonical" "a = idx" "asset_id (canonical ! idx) = cf" by simp_all
    let ?p = "\<lparr>origin = og, assets = (v, ?refs), feeAssetId = f,
                  feeAssetIndex = idx, feeAnyAssetRef = a,
                  destination = d, beneficiary = b\<rparr>"
    have "fst (prepareTransferParams u x tp) = Inr (?p, ?h)"
      by (simp add: unfold found)
    moreover have "map ?h (snd (assets ?p)) = map Some canonical"
      by (simp add: allocate_encoded)
    moreover have "feeAnyAssetRef ?p = snd (assets ?p) ! feeAssetIndex ?p"
      using idx by (simp add: allocate_refs)
    moreover have "?h (feeAnyAssetRef ?p) = Some (canonical ! feeAssetIndex ?p)"
      using idx by (simp add: allocate_store)
    ultimately show "\<exists>p h. fst (prepareTransferParams u x tp) = Inr (p, h) \<and>
               fst (assets p) = v \<and> map h (snd (assets p)) = map Some canonical \<and>
               feeAssetIndex p < length canonical \<and>
               asset_id (canonical ! feeAssetIndex p) = cf \<and>
               feeAnyAssetRef p = snd (assets p) ! feeAssetIndex p \<and>
               h (feeAnyAssetRef p) = Some (canonical ! feeAssetIndex p) \<and>
               origin p = og \<and> feeAssetId p = f \<and> destination p = d \<and> beneficiary p = b"
      using idx by (intro exI[of _ ?p] exI[of _ ?h]) simp
  qed
  from absent present show ?thesis by blast
qed

theorem prepare_fee_asset_witness:
  "(\<exists>p h. fst (prepareTransferParams sampleUtil sampleXcm sampleTransfer) = Inr (p, h) \<and>
      asset_id ([\<lparr>asset_id = \<lparr>parents = 0, interior = [GeneralIndex 1]\<rparr>, asset_fun = Fungible 100\<rparr>,
                 \<lparr>asset_id = \<lparr>parents = 1, interior = []\<rparr>, asset_fun = Fungible 10\<rparr>]
                ! feeAssetIndex p) = \<lparr>parents = 1, interior = []\<rparr> \<and>
      feeAnyAssetRef p = snd (assets p) ! feeAssetIndex p) \<and>
   fst (prepareTransferParams sampleUtil sampleXcm (sampleTransfer\<lparr>tp_feeAssetId := Named ''AssetHub''\<rparr>))
     = Inl (FeeAssetNotInTransfer ''Karura'')"
proof -
  let ?canonical = "[\<lparr>asset_id = \<lparr>parents = 0, interior = [GeneralIndex 1]\<rparr>, asset_fun = Fungible 100\<rparr>,
                 \<lparr>asset_id = \<lparr>parents = 1, interior = []\<rparr>, asset_fun = Fungible 10\<rparr>]"
  have res: "resolveAssets sampleUtil sampleXcm (tp_assets sampleTransfer) = Inr ?canonical"
    by (simp add: sampleUtil_def sampleXcm_def sampleTransfer_def resolveRelativeLocation_def
          resolveRelativeAsset_def)
  have 1: "\<exists>p h. fst (prepareTransferParams sampleUtil sampleXcm sampleTransfer) = Inr (p, h) \<and>
      asset_id (?canonical ! feeAssetIndex p) = \<lparr>parents = 1, interior = []\<rparr> \<and>
      feeAnyAssetRef p = snd (assets p) ! feeAssetIndex p"
    using prepare_fee_asset [where u = sampleUtil and x = sampleXcm and tp = sampleTransfer
        and og = "SystemSigned ''0x616c696365''"
        and d = "\<lparr>parents = 1, interior = [Parachain 1000]\<rparr>"
        and b = "\<lparr>parents = 0, interior = [AccountId32 ''bob'']\<rparr>"
        and f = "\<lparr>parents = 1, interior = []\<rparr>"
        and resolved = ?canonical and v = 4 and canonical = ?canonical
        and w = 4 and cf = "\<lparr>parents = 1, interior = []\<rparr>"]
      sample_account res
    by (simp add: sampleUtil_def sampleXcm_def sampleTransfer_def resolveRelativeLocation_def
          locationRelativeToPrefix_def) blast
  have 2: "fst (prepareTransferParams sampleUtil sampleXcm (sampleTransfer\<lparr>tp_feeAssetId := Named ''AssetHub''\<rparr>))
     = Inl (FeeAssetNotInTransfer ''Karura'')"
    using prepare_fee_asset [where u = sampleUtil and x = sampleXcm
        and tp = "sampleTransfer\<lparr>tp_feeAssetId := Named ''AssetHub''\<rparr>"
        and og = "SystemSigned ''0x616c696365''"
        and d = "\<lparr>parents = 1, interior = [Parachain 1000]\<rparr>"
        and b = "\<lparr>parents = 0, interior = [AccountId32 ''bob'']\<rparr>"
        and f = "\<lparr>parents = 1, interior = [Parachain 1000]\<rparr>"
        and resolved = ?canonical and v = 4 and canonical = ?canonical
        and w = 4 and cf = "\<lparr>parents = 1, interior = [Parachain 1000]\<rparr>"]
      sample_account res
    by (simp add: sampleUtil_def sampleXcm_def sampleTransfer_def resolveRelativeLocation_def
          locationRelativeToPrefix_def)
  from 1 2 show ?thesis by blast
qed

subsection \<open>The alternate backend\<close>

text \<open>
  C7. For a transfer composed with the alternate (xTokens) backend from prepared
  parameters: if the prepared beneficiary has parents other than 0, the composition
  fails with the error that asks for an interior location, before any estimation;
  otherwise the candidate transaction handed to the estimator has one destination, the
  conversion of the location whose parents are the prepared destination's and whose
  interior is the prepared destination's junctions followed by the prepared
  beneficiary's.
\<close>

theorem xTokens_compose:
  assumes "fst (prepareTransferParams u x tp) = Inr (p, h)"
  shows "(parents (beneficiary p) \<noteq> 0 \<longrightarrow>
            XTokensBackend_composeTransfer u x est tp
              = (Inl (BeneficiaryNotInterior (parents (beneficiary p))), [])) \<and>
         (parents (beneficiary p) = 0 \<and>
          convertLocationVersion u (xcmVersion x)
            \<lparr>parents = parents (destination p),
             interior = interior (destination p) @ interior (beneficiary p)\<rparr> = Inr dest \<longrightarrow>
            snd (XTokensBackend_composeTransfer u x est tp)
              = [EstimateFeesCall (origin p)
                   (TransferMultiassets (encodedAssets p h) (feeAssetIndex p) dest ''Unlimited'')
                   (feeAssetId p)])"
  using assms
  by (simp add: XTokensBackend_composeTransfer_def toJunctions_def location_def Let_def
        split: sum.splits EstimatedFees.splits)

theorem xTokens_compose_witness:
  "snd (XTokensBackend_composeTransfer sampleUtil sampleXcm scriptedEstimator sampleTransfer)
     = [EstimateFeesCall (SystemSigned ''0x616c696365'')
          (TransferMultiassets (encodedAssets samplePrepared sampleStore) 1
             (VersionedLocation 4 \<lparr>parents = 1, interior = [Parachain 1000, AccountId32 ''bob'']\<rparr>)
             ''Unlimited'')
          \<lparr>parents = 1, interior = []\<rparr>] \<and>
   XTokensBackend_composeTransfer sampleUtil sampleXcm scriptedEstimator
     (sampleTransfer\<lparr>tp_beneficiary := Loc \<lparr>parents = 1, interior = [AccountId32 ''bob'']\<rparr>\<rparr>)
     = (Inl (BeneficiaryNotInterior 1), [])"
  using xTokens_compose [where u = sampleUtil and x = sampleXcm and tp = sampleTransfer
          and est = scriptedEstimator, OF prepare_sample,
          where dest = "VersionedLocation 4 \<lparr>parents = 1, interior = [Parachain 1000, AccountId32 ''bob'']\<rparr>"]
        xTokens_compose [where u = sampleUtil and x = sampleXcm and est = scriptedEstimator,
          OF prepare_sample_ascending]
  by (simp add: samplePrepared_def sampleUtil_def sampleXcm_def)

subsection \<open>The fee convergence loop of the primary backend\<close>

text \<open>One turn of the loop on a shortfall, and the last turn on a fee value.\<close>

lemma feeLoop_shortfall:
  assumes "tryEstimateExtrinsicXcmFees (est (length calls)) (origin p)
             (TransferAssets dest benef (encodedAssets p h) (feeAssetIndex p) ''Unlimited'')
             (feeAssetId p) = Inr (Error missing)"
    and "h (feeAnyAssetRef p) = Some a" and "asset_fun a = Fungible amount"
  shows "feeLoop est dest benef calls p h =
           feeLoop est dest benef
             (calls @ [EstimateFeesCall (origin p)
                (TransferAssets dest benef (encodedAssets p h) (feeAssetIndex p) ''Unlimited'')
                (feeAssetId p)])
             p (h(feeAnyAssetRef p \<mapsto> a\<lparr>asset_fun := Fungible (amount + missing)\<rparr>))"
  using assms
  by (subst feeLoop.simps) (simp add: Let_def addToFungibleIfPresent_def)

lemma feeLoop_value:
  assumes "tryEstimateExtrinsicXcmFees (est (length calls)) (origin p)
             (TransferAssets dest benef (encodedAssets p h) (feeAssetIndex p) ''Unlimited'')
             (feeAssetId p) = Inr (Value v)"
    and "h (feeAnyAssetRef p) = Some a" and "asset_fun a = Fungible amount"
  shows "feeLoop est dest benef calls p h =
           Some (Inr (calls @ [EstimateFeesCall (origin p)
                (TransferAssets dest benef (encodedAssets p h) (feeAssetIndex p) ''Unlimited'')
                (feeAssetId p)],
             p, h(feeAnyAssetRef p \<mapsto> a\<lparr>asset_fun := Fungible (amount + v)\<rparr>)))"
  using assms
  by (subst feeLoop.simps) (simp add: Let_def addToFungible_def)

lemma feeLoop_3_2_0:
  assumes e0: "\<And>og xt f. tryEstimateExtrinsicXcmFees (est 0) og xt f = Inr (Error 3)"
    and e1: "\<And>og xt f. tryEstimateExtrinsicXcmFees (est 1) og xt f = Inr (Error 2)"
    and e2: "\<And>og xt f. tryEstimateExtrinsicXcmFees (est 2) og xt f = Inr (Value 0)"
    and ha: "h (feeAnyAssetRef p) = Some a" and fa: "asset_fun a = Fungible amount"
  shows "\<exists>cs. feeLoop est dest benef [] p h =
           Some (Inr (cs, p, h(feeAnyAssetRef p \<mapsto> a\<lparr>asset_fun := Fungible (amount + 5)\<rparr>))) \<and>
           length cs = 3"
proof -
  let ?r = "feeAnyAssetRef p"
  let ?tx = "\<lambda>h. TransferAssets dest benef (encodedAssets p h) (feeAssetIndex p) ''Unlimited''"
  let ?ev = "\<lambda>h. EstimateFeesCall (origin p) (?tx h) (feeAssetId p)"
  let ?a1 = "a\<lparr>asset_fun := Fungible (amount + 3)\<rparr>"
  let ?h1 = "h(?r \<mapsto> ?a1)"
  let ?a2 = "?a1\<lparr>asset_fun := Fungible (amount + 3 + 2)\<rparr>"
  let ?h2 = "?h1(?r \<mapsto> ?a2)"
  let ?a3 = "?a2\<lparr>asset_fun := Fungible (amount + 3 + 2 + 0)\<rparr>"
  let ?h3 = "?h2(?r \<mapsto> ?a3)"
  have l1: "length [?ev h] = 1" and l2: "length [?ev h, ?ev ?h1] = 2"
    by simp_all
  have s1: "feeLoop est dest benef [] p h = feeLoop est dest benef ([] @ [?ev h]) p ?h1"
    by (rule feeLoop_shortfall[where a = a and amount = amount]) (simp_all add: e0 ha fa)
  have s2: "feeLoop est dest benef [?ev h] p ?h1
              = feeLoop est dest benef ([?ev h] @ [?ev ?h1]) p ?h2"
    by (rule feeLoop_shortfall[where a = ?a1]) (simp_all only: l1 e1, simp_all)
  have s3: "feeLoop est dest benef [?ev h, ?ev ?h1] p ?h2
              = Some (Inr ([?ev h, ?ev ?h1] @ [?ev ?h2], p, ?h3))"
    by (rule feeLoop_value[where a = ?a2]) (simp_all only: l2 e2, simp_all)
  have h3: "?h3 = h(?r \<mapsto> a\<lparr>asset_fun := Fungible (amount + 5)\<rparr>)"
    by (simp add: add.assoc)
  have "feeLoop est dest benef [] p h = Some (Inr ([?ev h, ?ev ?h1, ?ev ?h2], p, ?h3))"
    using s1 s2 s3 by simp
  then have "feeLoop est dest benef [] p h
      = Some (Inr ([?ev h, ?ev ?h1, ?ev ?h2], p,
                   h(?r \<mapsto> a\<lparr>asset_fun := Fungible (amount + 5)\<rparr>)))"
    by (simp only: h3)
  moreover have "length [?ev h, ?ev ?h1, ?ev ?h2] = 3"
    by simp
  ultimately show ?thesis by blast
qed

lemma scripted_responses:
  "tryEstimateExtrinsicXcmFees (scriptedEstimator 0) og xt f = Inr (Error 3)"
  "tryEstimateExtrinsicXcmFees (scriptedEstimator 1) og xt f = Inr (Error 2)"
  "tryEstimateExtrinsicXcmFees (scriptedEstimator 2) og xt f = Inr (Value 0)"
  by (simp_all add: tryEstimateExtrinsicXcmFees_def scriptedEstimator_def
        isTooExpensiveFeeError_def)

lemma sampleStore_fee:
  "sampleStore (feeAnyAssetRef samplePrepared)
     = Some \<lparr>asset_id = \<lparr>parents = 1, interior = []\<rparr>, asset_fun = Fungible 10\<rparr>"
  by (simp add: sampleStore_def samplePrepared_def allocate_def)

lemma sample_run:
  "\<exists>cs. feeLoop scriptedEstimator (VersionedLocation 4 (destination samplePrepared))
          (VersionedLocation 4 (beneficiary samplePrepared)) [] samplePrepared sampleStore
        = Some (Inr (cs, samplePrepared,
            sampleStore(feeAnyAssetRef samplePrepared \<mapsto>
              \<lparr>asset_id = \<lparr>parents = 1, interior = []\<rparr>, asset_fun = Fungible 10\<rparr>
                \<lparr>asset_fun := Fungible (10 + 5)\<rparr>))) \<and>
        length cs = 3"
  by (rule feeLoop_3_2_0[where est = scriptedEstimator and p = samplePrepared
        and h = sampleStore and amount = 10])
     (simp_all only: scripted_responses sampleStore_fee, simp)



text \<open>
  What a run of the loop that ends with a fee value leaves of the state it started
  from, by induction on the loop.
\<close>

lemma addToFungibleIfPresent_cases:
  assumes "addToFungibleIfPresent r m h = Inr h1"
  shows "\<exists>a. h r = Some a \<and>
           (h1 = h \<or> (\<exists>amount. asset_fun a = Fungible amount \<and>
                         h1 = h(r \<mapsto> a\<lparr>asset_fun := Fungible (amount + m)\<rparr>)))"
  using assms
  by (auto simp: addToFungibleIfPresent_def split: option.splits Fungibility.splits)

lemma addToFungible_cases:
  assumes "addToFungible r v h = Inr h1"
  shows "\<exists>a amount. h r = Some a \<and> asset_fun a = Fungible amount \<and>
           h1 = h(r \<mapsto> a\<lparr>asset_fun := Fungible (amount + v)\<rparr>)"
  using assms
  by (auto simp: addToFungible_def split: option.splits Fungibility.splits)

lemma feeLoop_frame_aux:
  assumes run: "feeLoop est dest benef calls p h = Some y"
  shows "\<forall>calls' p' h'. y = Inr (calls', p', h') \<longrightarrow>
           p' = p \<and> (\<forall>r. r \<noteq> feeAnyAssetRef p \<longrightarrow> h' r = h r) \<and>
           (\<exists>a amount amount'. h (feeAnyAssetRef p) = Some a \<and> asset_fun a = Fungible amount \<and>
              h' (feeAnyAssetRef p) = Some (a\<lparr>asset_fun := Fungible amount'\<rparr>))"
proof (rule feeLoop.raw_induct[where P = "\<lambda>est dest benef calls p h y.
     \<forall>calls' p' h'. y = Inr (calls', p', h') \<longrightarrow>
           p' = p \<and> (\<forall>r. r \<noteq> feeAnyAssetRef p \<longrightarrow> h' r = h r) \<and>
           (\<exists>a amount amount'. h (feeAnyAssetRef p) = Some a \<and> asset_fun a = Fungible amount \<and>
              h' (feeAnyAssetRef p) = Some (a\<lparr>asset_fun := Fungible amount'\<rparr>))",
     OF _ run], goal_cases)
  case (1 loop est dest benef calls p h y)
  let ?tx = "TransferAssets dest benef (encodedAssets p h) (feeAssetIndex p) ''Unlimited''"
  let ?calls = "calls @ [EstimateFeesCall (origin p) ?tx (feeAssetId p)]"
  let ?r = "feeAnyAssetRef p"
  show ?case
  proof (cases "tryEstimateExtrinsicXcmFees (est (length calls)) (origin p) ?tx (feeAssetId p)")
    case (Inl e)
    with 1(2) have "y = Inl e" by (simp add: Let_def)
    then show ?thesis by simp
  next
    case (Inr fees)
    show ?thesis
    proof (cases fees)
      case (Value v)
      show ?thesis
      proof (cases "addToFungible ?r v h")
        case (Inl e)
        with 1(2) Inr Value have "y = Inl e" by (simp add: Let_def)
        then show ?thesis by simp
      next
        case upd: (Inr h1)
        with 1(2) Inr Value have y: "y = Inr (?calls, p, h1)" by (simp add: Let_def)
        from addToFungible_cases[OF upd] y show ?thesis by auto
      qed
    next
      case (Error m)
      show ?thesis
      proof (cases "addToFungibleIfPresent ?r m h")
        case (Inl e)
        with 1(2) Inr Error have "y = Inl e" by (simp add: Let_def)
        then show ?thesis by simp
      next
        case upd: (Inr h1)
        with 1(2) Inr Error have rec: "loop est dest benef ?calls p h1 = Some y"
          by (simp add: Let_def)
        note ih = 1(1)[OF rec]
        from addToFungibleIfPresent_cases[OF upd] obtain a where
          a: "h ?r = Some a"
          and h1: "h1 = h \<or> (\<exists>amount. asset_fun a = Fungible amount \<and>
                         h1 = h(?r \<mapsto> a\<lparr>asset_fun := Fungible (amount + m)\<rparr>))"
          by blast
        from h1 show ?thesis
        proof
          assume same: "h1 = h"
          from ih show ?thesis unfolding same .
        next
          assume "\<exists>amount. asset_fun a = Fungible amount \<and>
                         h1 = h(?r \<mapsto> a\<lparr>asset_fun := Fungible (amount + m)\<rparr>)"
          then obtain amount where am: "asset_fun a = Fungible amount"
            and h1': "h1 = h(?r \<mapsto> a\<lparr>asset_fun := Fungible (amount + m)\<rparr>)"
            by blast
          show ?thesis
          proof (intro allI impI)
            fix calls' p' h'
            assume yy: "y = Inr (calls', p', h')"
            with ih have p: "p' = p" and fr: "\<forall>r. r \<noteq> ?r \<longrightarrow> h' r = h1 r"
              and ex: "\<exists>b amount amount'. h1 ?r = Some b \<and> asset_fun b = Fungible amount \<and>
                          h' ?r = Some (b\<lparr>asset_fun := Fungible amount'\<rparr>)"
              by blast+
            from ex h1' obtain amount' where
              "h' ?r = Some (a\<lparr>asset_fun := Fungible (amount + m)\<rparr>\<lparr>asset_fun := Fungible amount'\<rparr>)"
              by auto
            then have "h' ?r = Some (a\<lparr>asset_fun := Fungible amount'\<rparr>)" by simp
            with p fr h1' a am
            show "p' = p \<and> (\<forall>r. r \<noteq> ?r \<longrightarrow> h' r = h r) \<and>
                  (\<exists>a amount amount'. h ?r = Some a \<and> asset_fun a = Fungible amount \<and>
                     h' ?r = Some (a\<lparr>asset_fun := Fungible amount'\<rparr>))"
              by auto
          qed
        qed
      qed
    qed
  qed
qed

text \<open>
  C5. Throughout the fee convergence loop of the primary backend the only change to
  the prepared transfer parameters is to the fungible amount of the fee-asset entry:
  at the loop's exit the prepared parameters (origin, destination, beneficiary, fee
  asset id and index, and the vector of asset references with its order) are those of
  the entry; every object of the store other than the fee asset is as it was, so every
  other entry of the asset vector is unchanged; and the fee asset has its id and is
  fungible as before, only its amount may differ.
\<close>

theorem feeLoop_frame:
  assumes "feeLoop est dest benef calls p h = Some (Inr (calls', p', h'))"
  shows "p' = p \<and>
         (\<forall>r. r \<noteq> feeAnyAssetRef p \<longrightarrow> h' r = h r) \<and>
         (\<exists>a amount amount'. h (feeAnyAssetRef p) = Some a \<and> asset_fun a = Fungible amount \<and>
            h' (feeAnyAssetRef p) = Some (a\<lparr>asset_fun := Fungible amount'\<rparr>)) \<and>
         (\<forall>j. j < length (snd (assets p)) \<and> snd (assets p) ! j \<noteq> feeAnyAssetRef p \<longrightarrow>
            h' (snd (assets p') ! j) = h (snd (assets p) ! j))"
  using feeLoop_frame_aux[OF assms] by simp

theorem feeLoop_frame_witness:
  "\<exists>cs h'. feeLoop scriptedEstimator (VersionedLocation 4 (destination samplePrepared))
          (VersionedLocation 4 (beneficiary samplePrepared)) [] samplePrepared sampleStore
        = Some (Inr (cs, samplePrepared, h')) \<and>
      h' 0 = sampleStore 0 \<and>
      (\<exists>amount'. h' 1 = Some \<lparr>asset_id = \<lparr>parents = 1, interior = []\<rparr>,
                                  asset_fun = Fungible amount'\<rparr>)"
proof -
  from sample_run obtain cs h' where
    run: "feeLoop scriptedEstimator (VersionedLocation 4 (destination samplePrepared))
          (VersionedLocation 4 (beneficiary samplePrepared)) [] samplePrepared sampleStore
        = Some (Inr (cs, samplePrepared, h'))"
    by blast
  have ref: "feeAnyAssetRef samplePrepared = 1"
    by (simp add: samplePrepared_def)
  from feeLoop_frame[OF run] have
    others: "\<forall>r. r \<noteq> feeAnyAssetRef samplePrepared \<longrightarrow> h' r = sampleStore r"
    and fee: "\<exists>a amount amount'. sampleStore (feeAnyAssetRef samplePrepared) = Some a \<and>
                asset_fun a = Fungible amount \<and>
                h' (feeAnyAssetRef samplePrepared) = Some (a\<lparr>asset_fun := Fungible amount'\<rparr>)"
    by blast+
  from others ref have "h' 0 = sampleStore 0" by simp
  moreover from fee have "\<exists>amount'. h' 1 = Some \<lparr>asset_id = \<lparr>parents = 1, interior = []\<rparr>,
                                  asset_fun = Fungible amount'\<rparr>"
    unfolding sampleStore_fee ref[symmetric] by auto
  ultimately show ?thesis using run by blast
qed

end
